theory Spec2Isabelle
  imports Main
begin

section \<open>JavaScript values used by the identity manager\<close>

text \<open>
  The embedding follows the class \<^verbatim>\<open>ArcGISIdentityManager\<close> of the compiled
  \<^verbatim>\<open>ArcGISIdentityManager.js\<close>: its constructor, \<^verbatim>\<open>getServerRootUrl\<close>, \<^verbatim>\<open>updateToken\<close>,
  \<^verbatim>\<open>serialize\<close> and \<^verbatim>\<open>deserialize\<close>, the refresh methods, and \<^verbatim>\<open>getFreshToken\<close> and
  \<^verbatim>\<open>getTokenForServer\<close> with the promises they keep in \<^verbatim>\<open>_pendingTokenRequests\<close>.

  Strings are ASCII strings, a \<^verbatim>\<open>Date\<close> is its time value in milliseconds since the epoch
  (an \<open>int\<close>; the numbers that occur are integers inside the range of \<^verbatim>\<open>Date\<close>),
  \<^verbatim>\<open>Date.now()\<close> is a clock reading passed in, and a property that may be \<^verbatim>\<open>undefined\<close> is
  an \<open>option\<close>. The manager is a record that the methods take and return; a promise chain
  is a value that says what it waits for and what runs then, and the transport is whoever
  answers: every theorem holds for all answers and all clock readings.
\<close>

type_synonym date = int
type_synonym time = int

text \<open>Truthiness of a string that may be \<^verbatim>\<open>undefined\<close>: the empty string is falsy.\<close>

definition truthy :: "string option \<Rightarrow> bool" where
  "truthy s = (case s of None \<Rightarrow> False | Some v \<Rightarrow> v \<noteq> [])"

text \<open>\<^verbatim>\<open>String.prototype.startsWith\<close>.\<close>

definition startsWith :: "string \<Rightarrow> string \<Rightarrow> bool" where
  "startsWith s p = (take (length p) s = p)"

text \<open>\<^verbatim>\<open>String.prototype.toLowerCase\<close> on ASCII.\<close>

definition lower_char :: "char \<Rightarrow> char" where
  "lower_char c =
     (case map_of (zip ''ABCDEFGHIJKLMNOPQRSTUVWXYZ'' ''abcdefghijklmnopqrstuvwxyz'') c of
        Some d \<Rightarrow> d
      | None \<Rightarrow> c)"

definition toLowerCase :: "string \<Rightarrow> string" where
  "toLowerCase s = map lower_char s"

text \<open>\<^verbatim>\<open>s.split(c)\<close> for a one-character separator: never empty, \<^verbatim>\<open>"".split("/")\<close> is \<^verbatim>\<open>[""]\<close>.\<close>

fun split_on :: "char \<Rightarrow> string \<Rightarrow> string list" where
  "split_on c [] = [[]]"
| "split_on c (x # xs) =
     (if x = c then [] # split_on c xs
      else (x # hd (split_on c xs)) # tl (split_on c xs))"

text \<open>\<^verbatim>\<open>Array.prototype.join\<close>.\<close>

fun join :: "string \<Rightarrow> string list \<Rightarrow> string" where
  "join sep [] = []"
| "join sep [x] = x"
| "join sep (x # y # ys) = x @ sep @ join sep (y # ys)"

section \<open>Errors\<close>

datatype ArcGISTokenRequestErrorCodes =
    TOKEN_REFRESH_FAILED
  | GENERATE_TOKEN_FOR_SERVER_FAILED
  | REFRESH_TOKEN_EXCHANGE_FAILED
  | NOT_FEDERATED
  | UNKNOWN_ERROR_CODE

text \<open>
  What a promise rejects with, or a call throws. \<open>RequestError\<close> is the error of the
  transport: its message and its \<^verbatim>\<open>response\<close>, \<^verbatim>\<open>url\<close> and \<^verbatim>\<open>options\<close> (kept together as one
  opaque string). \<open>ArcGISTokenRequestError message code detail\<close> is the typed error of the
  manager. \<open>TypeError\<close> is what the engine throws on a property read of \<^verbatim>\<open>undefined\<close> or
  \<^verbatim>\<open>null\<close>; its message is the engine's.
\<close>

datatype js_error =
    TypeError string
  | RequestError string string
  | ArcGISTokenRequestError string ArcGISTokenRequestErrorCodes "string option"

fun message_of :: "js_error \<Rightarrow> string" where
  "message_of (TypeError msg) = msg"
| "message_of (RequestError msg d) = msg"
| "message_of (ArcGISTokenRequestError msg c d) = msg"

fun detail_of :: "js_error \<Rightarrow> string option" where
  "detail_of (TypeError msg) = None"
| "detail_of (RequestError msg d) = Some d"
| "detail_of (ArcGISTokenRequestError msg c d) = d"

fun code_of :: "js_error \<Rightarrow> ArcGISTokenRequestErrorCodes option" where
  "code_of (ArcGISTokenRequestError msg c d) = Some c"
| "code_of e = None"

text \<open>\<^verbatim>\<open>new ArcGISTokenRequestError(e.message, code, e.response, e.url, e.options)\<close>.\<close>

definition wrap_error :: "ArcGISTokenRequestErrorCodes \<Rightarrow> js_error \<Rightarrow> js_error" where
  "wrap_error c e = ArcGISTokenRequestError (message_of e) c (detail_of e)"

definition undefined_read :: js_error where
  "undefined_read = TypeError ''Cannot read properties of undefined''"

section \<open>Code of the package that is not among the sources\<close>

text \<open>
  \<^verbatim>\<open>cleanUrl\<close> (utils/clean-url.js), \<^verbatim>\<open>isFederated\<close> (federation-utils.js) and the referer
  header that \<^verbatim>\<open>refreshWithUsernameAndPassword\<close> sends are parameters of the model.
\<close>

record externals =
  cleanUrl :: "string \<Rightarrow> string"
  isFederated :: "string \<Rightarrow> string \<Rightarrow> bool"
  referer :: string

text \<open>
  Modelled from the spec: \<^verbatim>\<open>cleanUrl\<close>, whose file is missing. The spec describes the
  portal as "normalized, trailing slash stripped"; this instance strips one trailing slash.
  It is used to instantiate the parameter at concrete inputs only.
\<close>

definition strip_trailing_slash :: "string \<Rightarrow> string" where
  "strip_trailing_slash url =
     (if url \<noteq> [] \<and> last url = CHR ''/'' then butlast url else url)"

text \<open>
  Modelled from the spec: \<^verbatim>\<open>isFederated\<close>, whose file is missing. The spec calls it a
  "string/domain comparison"; this instance compares the two URLs without their protocol,
  ignoring case. It is used to instantiate the parameter at concrete inputs only.
\<close>

definition drop_protocol :: "string \<Rightarrow> string" where
  "drop_protocol u =
     (if startsWith u ''https://'' then drop 8 u
      else if startsWith u ''http://'' then drop 7 u else u)"

definition sample_externals :: externals where
  "sample_externals =
     \<lparr> cleanUrl = strip_trailing_slash,
       isFederated = (\<lambda>owningSystemUrl portalUrl.
          startsWith (toLowerCase (drop_protocol portalUrl))
                     (toLowerCase (drop_protocol (strip_trailing_slash owningSystemUrl)))),
       referer = ''@esri/arcgis-rest-js'' \<rparr>"

section \<open>getServerRootUrl\<close>

text \<open>
  The regular expression \<^verbatim>\<open>/\/rest(\/admin)?\/services(?:\/|#|\?|$)/\<close> matches at the start
  of \<open>s\<close>.
\<close>

definition services_terminator :: "string \<Rightarrow> bool" where
  "services_terminator r =
     (case r of [] \<Rightarrow> True | c # cs \<Rightarrow> c = CHR ''/'' \<or> c = CHR ''#'' \<or> c = CHR ''?'')"

definition services_match_here :: "string \<Rightarrow> bool" where
  "services_match_here s =
     ((startsWith s ''/rest/admin/services'' \<and> services_terminator (drop 20 s))
      \<or> (startsWith s ''/rest/services'' \<and> services_terminator (drop 14 s)))"

text \<open>The first element of \<^verbatim>\<open>s.split(regex)\<close>: \<open>s\<close> up to the leftmost match.\<close>

fun split_services_first :: "string \<Rightarrow> string" where
  "split_services_first [] = []"
| "split_services_first (c # cs) =
     (if services_match_here (c # cs) then [] else c # split_services_first cs)"

text \<open>
  \<^verbatim>\<open>root.match(/(https?:\/\/)(.+)/)\<close>: the leftmost \<^verbatim>\<open>http://\<close> or \<^verbatim>\<open>https://\<close> that at
  least one character other than a line terminator follows; the second group takes every
  character up to the next line terminator. \<open>None\<close> is \<^verbatim>\<open>null\<close>.
\<close>

definition line_terminator :: "char \<Rightarrow> bool" where
  "line_terminator c = (c = CHR 0x0A \<or> c = CHR 0x0D)"

definition dot_plus :: "string \<Rightarrow> string" where
  "dot_plus s = takeWhile (\<lambda>c. \<not> line_terminator c) s"

definition protocol_match_here :: "string \<Rightarrow> (string \<times> string) option" where
  "protocol_match_here s =
     (if startsWith s ''https://'' \<and> dot_plus (drop 8 s) \<noteq> []
        then Some (''https://'', dot_plus (drop 8 s))
      else if startsWith s ''http://'' \<and> dot_plus (drop 7 s) \<noteq> []
        then Some (''http://'', dot_plus (drop 7 s))
      else None)"

fun match_protocol :: "string \<Rightarrow> (string \<times> string) option" where
  "match_protocol [] = None"
| "match_protocol (c # cs) =
     (case protocol_match_here (c # cs) of
        Some r \<Rightarrow> Some r
      | None \<Rightarrow> match_protocol cs)"

text \<open>
  Destructuring the \<^verbatim>\<open>null\<close> of a failed match throws a \<^verbatim>\<open>TypeError\<close>. The array of
  \<^verbatim>\<open>domainAndPath.split("/")\<close> is never empty: \<open>domain\<close> is its head, \<open>path\<close> its tail.
\<close>

definition getServerRootUrl :: "externals \<Rightarrow> string \<Rightarrow> js_error + string" where
  "getServerRootUrl X url =
     (let root = split_services_first (cleanUrl X url) in
      case match_protocol root of
        None \<Rightarrow> Inl (TypeError ''object null is not iterable'')
      | Some (protocol, domainAndPath) \<Rightarrow>
          (let parts = split_on CHR ''/'' domainAndPath;
               domain = hd parts;
               path = tl parts
           in Inr (protocol @ toLowerCase domain @ ''/'' @ join ''/'' path)))"

section \<open>The manager\<close>

text \<open>An entry of \<^verbatim>\<open>federatedServers\<close>: \<^verbatim>\<open>{ token, expires }\<close>.\<close>

record fed_entry =
  fs_token :: "string option"
  fs_expires :: "date option"

text \<open>The user and portal snapshots; only the properties the manager reads.\<close>

record user_info =
  u_username :: "string option"

record portal_info =
  authorizedCrossOriginDomains :: "string list option"

text \<open>
  The fields of an \<^verbatim>\<open>ArcGISIdentityManager\<close>. \<open>priv_username\<close> is \<^verbatim>\<open>_username\<close> and
  \<open>priv_user\<close> is \<^verbatim>\<open>_user\<close>; \<open>token\<close>, \<open>tokenExpires\<close>, \<open>refreshToken\<close> and
  \<open>refreshTokenExpires\<close> are the private fields behind the getters of these names. A promise
  is the number of its operation; an entry of \<open>pendingTokenRequests\<close> is a promise or
  \<^verbatim>\<open>null\<close> (\<open>Some None\<close>).
\<close>

record manager =
  clientId :: "string option"
  refreshToken :: "string option"
  refreshTokenExpires :: "date option"
  priv_username :: "string option"
  password :: "string option"
  token :: "string option"
  tokenExpires :: "date option"
  portal :: string
  ssl :: "bool option"
  provider :: string
  tokenDuration :: int
  redirectUri :: "string option"
  server :: "string option"
  federatedServers :: "string \<rightharpoonup> fed_entry"
  trustedDomains :: "string list"
  pendingTokenRequests :: "string \<rightharpoonup> nat option"
  priv_user :: "user_info option"
  priv_pendingUserRequest :: "nat option"
  priv_portalInfo :: "portal_info option"
  priv_pendingPortalRequest :: "nat option"

text \<open>The options of the constructor (\<^verbatim>\<open>IArcGISIdentityManagerOptions\<close>).\<close>

record options =
  o_clientId :: "string option"
  o_refreshToken :: "string option"
  o_refreshTokenExpires :: "date option"
  o_username :: "string option"
  o_password :: "string option"
  o_token :: "string option"
  o_tokenExpires :: "date option"
  o_portal :: "string option"
  o_ssl :: "bool option"
  o_provider :: "string option"
  o_tokenDuration :: "int option"
  o_redirectUri :: "string option"
  o_server :: "string option"

text \<open>
  The constructor. It throws when \<^verbatim>\<open>getServerRootUrl(options.server)\<close> does. A server passed
  explicitly is registered in \<open>federatedServers\<close> under its root.
\<close>

definition new_manager :: "externals \<Rightarrow> options \<Rightarrow> js_error + manager" where
  "new_manager X opts =
     (let m = \<lparr> clientId = o_clientId opts,
                 refreshToken = o_refreshToken opts,
                 refreshTokenExpires = o_refreshTokenExpires opts,
                 priv_username = o_username opts,
                 password = o_password opts,
                 token = o_token opts,
                 tokenExpires = o_tokenExpires opts,
                 portal = (if truthy (o_portal opts) then cleanUrl X (the (o_portal opts))
                           else ''https://www.arcgis.com/sharing/rest''),
                 ssl = o_ssl opts,
                 provider = (if truthy (o_provider opts) then the (o_provider opts) else ''arcgis''),
                 tokenDuration = (case o_tokenDuration opts of
                                    None \<Rightarrow> 20160
                                  | Some d \<Rightarrow> if d \<noteq> 0 then d else 20160),
                 redirectUri = o_redirectUri opts,
                 server = o_server opts,
                 federatedServers = Map.empty,
                 trustedDomains = [],
                 pendingTokenRequests = Map.empty,
                 priv_user = None,
                 priv_pendingUserRequest = None,
                 priv_portalInfo = None,
                 priv_pendingPortalRequest = None \<rparr>
      in if truthy (o_server opts)
         then (case getServerRootUrl X (the (o_server opts)) of
                 Inl e \<Rightarrow> Inl e
               | Inr root \<Rightarrow>
                   Inr (m\<lparr> federatedServers :=
                            [root \<mapsto> \<lparr> fs_token = o_token opts, fs_expires = o_tokenExpires opts \<rparr>] \<rparr>))
         else Inr m)"

text \<open>The getter \<^verbatim>\<open>username\<close>: \<^verbatim>\<open>_username\<close>, else the snapshot's, else \<^verbatim>\<open>undefined\<close>.\<close>

definition username :: "manager \<Rightarrow> string option" where
  "username m =
     (if truthy (priv_username m) then priv_username m
      else (case priv_user m of
              None \<Rightarrow> None
            | Some u \<Rightarrow> if truthy (u_username u) then u_username u else None))"

definition updateToken :: "string option \<Rightarrow> date option \<Rightarrow> manager \<Rightarrow> manager" where
  "updateToken newToken newTokenExpiration m =
     m\<lparr> token := newToken, tokenExpires := newTokenExpiration \<rparr>"

subsection \<open>serialize and deserialize\<close>

text \<open>
  \<^verbatim>\<open>serialize\<close> is \<^verbatim>\<open>JSON.stringify(this)\<close>, which writes the object of \<^verbatim>\<open>toJSON\<close>;
  \<^verbatim>\<open>deserialize\<close> parses it and calls the constructor. The JSON text is modelled by the
  object it denotes: \<^verbatim>\<open>JSON.stringify\<close> leaves out the properties that are \<^verbatim>\<open>undefined\<close>,
  writes a date as its ISO string, and \<^verbatim>\<open>new Date\<close> reads that string back to the same
  instant. \<^verbatim>\<open>provider\<close> is not written. Neither function makes a request: both are
  functions of their argument alone.
\<close>

definition toJSON :: "manager \<Rightarrow> options" where
  "toJSON m =
     \<lparr> o_clientId = clientId m,
       o_refreshToken = refreshToken m,
       o_refreshTokenExpires = refreshTokenExpires m,
       o_username = username m,
       o_password = password m,
       o_token = token m,
       o_tokenExpires = tokenExpires m,
       o_portal = Some (portal m),
       o_ssl = ssl m,
       o_provider = None,
       o_tokenDuration = Some (tokenDuration m),
       o_redirectUri = redirectUri m,
       o_server = server m \<rparr>"

definition serialize :: "manager \<Rightarrow> options" where
  "serialize m = toJSON m"

definition deserialize :: "externals \<Rightarrow> options \<Rightarrow> js_error + manager" where
  "deserialize X str =
     new_manager X
       \<lparr> o_clientId = o_clientId str,
         o_refreshToken = o_refreshToken str,
         o_refreshTokenExpires = o_refreshTokenExpires str,
         o_username = o_username str,
         o_password = o_password str,
         o_token = o_token str,
         o_tokenExpires = o_tokenExpires str,
         o_portal = o_portal str,
         o_ssl = o_ssl str,
         o_provider = None,
         o_tokenDuration = o_tokenDuration str,
         o_redirectUri = o_redirectUri str,
         o_server = o_server str \<rparr>"

section \<open>The transport and promises\<close>

text \<open>
  The responses of the transport, typed as the TypeScript sources type them: the
  \<^verbatim>\<open>/rest/info\<close> of a server, the response of a generate-token endpoint, and what
  \<^verbatim>\<open>fetchToken\<close> resolves to (its dates already \<^verbatim>\<open>Date\<close> objects).
\<close>

record auth_info =
  tokenServicesUrl :: string

record server_info =
  owningSystemUrl :: "string option"
  authInfo :: "auth_info option"

record generate_token_response =
  gt_token :: string
  gt_expires :: int

record fetch_token_response =
  ft_token :: string
  ft_username :: string
  ft_expires :: date
  ft_ssl :: bool
  ft_refreshToken :: "string option"
  ft_refreshTokenExpires :: "date option"

datatype param = PString "string option" | PNumber int

record request_options =
  params :: "(string \<times> param) list option"
  credentials :: "string option"
  httpMethod :: "string option"

text \<open>\<^verbatim>\<open>Object.assign({ params }, requestOptions)\<close>: the caller's \<^verbatim>\<open>params\<close> win.\<close>

definition assign_params ::
  "(string \<times> param) list \<Rightarrow> request_options option \<Rightarrow> request_options" where
  "assign_params ps requestOptions =
     (case requestOptions of
        None \<Rightarrow> \<lparr> params = Some ps, credentials = None, httpMethod = None \<rparr>
      | Some r \<Rightarrow> (case params r of None \<Rightarrow> r\<lparr> params := Some ps \<rparr> | Some q \<Rightarrow> r))"

text \<open>
  A promise chain, as the state it is in. \<open>Settled\<close> is a promise that has resolved
  (\<open>Inr\<close>) or rejected (\<open>Inl\<close>). \<open>RequestInfo\<close>, \<open>RequestToken\<close> (both \<^verbatim>\<open>request(url, options)\<close>)
  and \<open>FetchToken\<close> (\<^verbatim>\<open>fetchToken(url, options)\<close>) wait for the transport, \<open>GetPortal\<close> waits
  for the promise of \<^verbatim>\<open>this.getPortal()\<close>; each carries what runs on the answer.
  \<open>Sync\<close> is a callback that is queued: when it runs it reads the clock and the manager,
  may change the manager, and returns the promise to go on with. A callback that reads
  neither the manager nor the clock is applied to its value directly. What the transport
  does with the manager it is handed as \<^verbatim>\<open>authentication\<close> is the transport's business.
\<close>

datatype 'a task =
    Settled "js_error + 'a"
  | RequestInfo string "request_options option" "js_error + server_info \<Rightarrow> 'a task"
  | RequestToken string "request_options option" "js_error + generate_token_response \<Rightarrow> 'a task"
  | FetchToken string "request_options option" "js_error + fetch_token_response \<Rightarrow> 'a task"
  | GetPortal "js_error + portal_info \<Rightarrow> 'a task"
  | Sync "time \<Rightarrow> manager \<Rightarrow> manager \<times> 'a task"

text \<open>\<^verbatim>\<open>p.then(f)\<close>: \<open>f\<close> gets the value \<open>p\<close> resolves to; a rejection passes through.\<close>

primrec then_task :: "'a task \<Rightarrow> ('a \<Rightarrow> 'b task) \<Rightarrow> 'b task" where
  "then_task (Settled r) f = (case r of Inl e \<Rightarrow> Settled (Inl e) | Inr v \<Rightarrow> f v)"
| "then_task (RequestInfo u opts k) f = RequestInfo u opts (\<lambda>r. then_task (k r) f)"
| "then_task (RequestToken u opts k) f = RequestToken u opts (\<lambda>r. then_task (k r) f)"
| "then_task (FetchToken u opts k) f = FetchToken u opts (\<lambda>r. then_task (k r) f)"
| "then_task (GetPortal k) f = GetPortal (\<lambda>r. then_task (k r) f)"
| "then_task (Sync c) f = Sync (\<lambda>n m. map_prod id (\<lambda>t. then_task t f) (c n m))"

text \<open>\<^verbatim>\<open>p.catch(h)\<close>: \<open>h\<close> gets the error \<open>p\<close> rejects with; a value passes through.\<close>

primrec catch_task :: "'a task \<Rightarrow> (js_error \<Rightarrow> 'a task) \<Rightarrow> 'a task" where
  "catch_task (Settled r) h = (case r of Inl e \<Rightarrow> h e | Inr v \<Rightarrow> Settled (Inr v))"
| "catch_task (RequestInfo u opts k) h = RequestInfo u opts (\<lambda>r. catch_task (k r) h)"
| "catch_task (RequestToken u opts k) h = RequestToken u opts (\<lambda>r. catch_task (k r) h)"
| "catch_task (FetchToken u opts k) h = FetchToken u opts (\<lambda>r. catch_task (k r) h)"
| "catch_task (GetPortal k) h = GetPortal (\<lambda>r. catch_task (k r) h)"
| "catch_task (Sync c) h = Sync (\<lambda>n m. map_prod id (\<lambda>t. catch_task t h) (c n m))"

text \<open>
  What happens to a chain: a queued callback runs at clock reading \<open>n\<close>, or the answer it
  waits for arrives.
\<close>

datatype event =
    Tick time
  | InfoReply "js_error + server_info"
  | TokenReply "js_error + generate_token_response"
  | FetchReply "js_error + fetch_token_response"
  | PortalReply "js_error + portal_info"

fun step :: "event \<Rightarrow> manager \<Rightarrow> 'a task \<Rightarrow> (manager \<times> 'a task) option" where
  "step (Tick n) m (Sync c) = Some (c n m)"
| "step (InfoReply r) m (RequestInfo u opts k) = Some (m, k r)"
| "step (TokenReply r) m (RequestToken u opts k) = Some (m, k r)"
| "step (FetchReply r) m (FetchToken u opts k) = Some (m, k r)"
| "step (PortalReply r) m (GetPortal k) = Some (m, k r)"
| "step ev m t = None"

text \<open>A chain run alone on a list of events; \<open>None\<close> when an event does not fit.\<close>

fun run :: "event list \<Rightarrow> manager \<Rightarrow> 'a task \<Rightarrow> (manager \<times> 'a task) option" where
  "run [] m t = Some (m, t)"
| "run (ev # evs) m t =
     (case step ev m t of None \<Rightarrow> None | Some (m', t') \<Rightarrow> run evs m' t')"

text \<open>The URL a chain is waiting on the transport for, if it is.\<close>

fun awaited_url :: "'a task \<Rightarrow> string option" where
  "awaited_url (RequestInfo u opts k) = Some u"
| "awaited_url (RequestToken u opts k) = Some u"
| "awaited_url (FetchToken u opts k) = Some u"
| "awaited_url t = None"

text \<open>The options of the request a chain is waiting on the transport for.\<close>

fun awaited_options :: "'a task \<Rightarrow> request_options option" where
  "awaited_options (RequestInfo u opts k) = opts"
| "awaited_options (RequestToken u opts k) = opts"
| "awaited_options (FetchToken u opts k) = opts"
| "awaited_options t = None"

section \<open>Refreshing the credentials\<close>

text \<open>
  A method that returns a promise is the chain it returns; it reads the manager at the call.
  A method that also writes the manager at the call returns the manager too.
\<close>

definition generateTokenForServer :: "manager \<Rightarrow> string \<Rightarrow> string \<Rightarrow> fed_entry task" where
  "generateTokenForServer m tokenUrl serverUrl =
     catch_task
       (then_task
          (RequestToken tokenUrl
             (Some \<lparr> params = Some [(''token'', PString (token m)),
                                     (''serverUrl'', PString (Some serverUrl)),
                                     (''expiration'', PNumber (tokenDuration m))],
                     credentials = None, httpMethod = None \<rparr>)
             Settled)
          (\<lambda>response.
             Settled (Inr \<lparr> fs_token = Some (gt_token response),
                            fs_expires = Some (gt_expires response - 1000 * 60 * 5) \<rparr>)))
       (\<lambda>e. Settled (Inl (wrap_error GENERATE_TOKEN_FOR_SERVER_FAILED e)))"

definition exchangeRefreshToken :: "request_options option \<Rightarrow> manager \<Rightarrow> unit task" where
  "exchangeRefreshToken requestOptions m =
     catch_task
       (then_task
          (FetchToken (portal m @ ''/oauth2/token'')
             (Some (assign_params
                      [(''client_id'', PString (clientId m)),
                       (''refresh_token'', PString (refreshToken m)),
                       (''redirect_uri'', PString (redirectUri m)),
                       (''grant_type'', PString (Some ''exchange_refresh_token''))]
                      requestOptions))
             Settled)
          (\<lambda>response.
             Sync (\<lambda>n m'.
               (m'\<lparr> token := Some (ft_token response),
                     tokenExpires := Some (ft_expires response),
                     refreshToken := ft_refreshToken response,
                     refreshTokenExpires := ft_refreshTokenExpires response \<rparr>,
                Settled (Inr ())))))
       (\<lambda>e. Settled (Inl (wrap_error REFRESH_TOKEN_EXCHANGE_FAILED e)))"

definition ONE_DAY_IN_MILLISECONDS :: int where
  "ONE_DAY_IN_MILLISECONDS = 1000 * 60 * 60 * 24"

definition refreshWithRefreshToken ::
  "request_options option \<Rightarrow> time \<Rightarrow> manager \<Rightarrow> unit task" where
  "refreshWithRefreshToken requestOptions now m =
     (if truthy (refreshToken m) \<and> refreshTokenExpires m \<noteq> None
         \<and> the (refreshTokenExpires m) - ONE_DAY_IN_MILLISECONDS < now
      then exchangeRefreshToken requestOptions m
      else
        catch_task
          (then_task
             (FetchToken (portal m @ ''/oauth2/token'')
                (Some (assign_params
                         [(''client_id'', PString (clientId m)),
                          (''refresh_token'', PString (refreshToken m)),
                          (''grant_type'', PString (Some ''refresh_token''))]
                         requestOptions))
                Settled)
             (\<lambda>response.
                Sync (\<lambda>n m'.
                  (updateToken (Some (ft_token response)) (Some (ft_expires response)) m',
                   Settled (Inr ())))))
          (\<lambda>e. Settled (Inl (wrap_error TOKEN_REFRESH_FAILED e))))"

text \<open>
  \<open>refreshWithUsernameAndPassword\<close> throws (\<open>Inl\<close>) when \<^verbatim>\<open>getServerRootUrl(this.server)\<close>
  does, before any promise exists. A \<^verbatim>\<open>/rest/info\<close> without \<^verbatim>\<open>authInfo\<close> makes the callback
  throw a \<^verbatim>\<open>TypeError\<close>, which the final \<^verbatim>\<open>catch\<close> wraps like any other error.
\<close>

definition refreshWithUsernameAndPassword ::
  "externals \<Rightarrow> request_options option \<Rightarrow> manager \<Rightarrow> js_error + unit task" where
  "refreshWithUsernameAndPassword X requestOptions m =
     (let ps = [(''username'', PString (username m)),
                (''password'', PString (password m)),
                (''expiration'', PNumber (tokenDuration m)),
                (''client'', PString (Some ''referer'')),
                (''referer'', PString (Some (referer X)))];
          finish = (\<lambda>t.
            catch_task
              (then_task t
                 (\<lambda>response.
                    Sync (\<lambda>n m'.
                      (updateToken (Some (gt_token response)) (Some (gt_expires response)) m',
                       Settled (Inr ())))))
              (\<lambda>e. Settled (Inl (wrap_error TOKEN_REFRESH_FAILED e))))
      in if truthy (server m)
         then (case getServerRootUrl X (the (server m)) of
                 Inl e \<Rightarrow> Inl e
               | Inr root \<Rightarrow>
                   Inr (finish
                     (then_task (RequestInfo (root @ ''/rest/info'') None Settled)
                        (\<lambda>response.
                           case authInfo response of
                             None \<Rightarrow> Settled (Inl undefined_read)
                           | Some ai \<Rightarrow>
                               RequestToken (tokenServicesUrl ai)
                                 (Some (assign_params ps requestOptions)) Settled))))
         else Inr (finish
                (RequestToken (portal m @ ''/generateToken'')
                   (Some (assign_params ps requestOptions)) Settled)))"

text \<open>
  \<open>refreshCredentials\<close> clears the user snapshot at the call, so the getter \<open>username\<close> it
  then reads is \<^verbatim>\<open>_username\<close> alone. It calls \<^verbatim>\<open>refreshWithRefreshToken()\<close> without the
  request options.
\<close>

definition refreshCredentials ::
  "externals \<Rightarrow> request_options option \<Rightarrow> time \<Rightarrow> manager \<Rightarrow> manager \<times> (js_error + unit task)" where
  "refreshCredentials X requestOptions now m =
     (let m' = m\<lparr> priv_user := None \<rparr> in
      if truthy (username m') \<and> truthy (password m')
        then (m', refreshWithUsernameAndPassword X requestOptions m')
      else if truthy (clientId m') \<and> truthy (refreshToken m')
        then (m', Inr (refreshWithRefreshToken None now m'))
      else (m', Inr (Settled (Inl (ArcGISTokenRequestError
               ''Unable to refresh token. No refresh token or password present.''
               TOKEN_REFRESH_FAILED None)))))"

section \<open>Tokens for federated servers\<close>

definition getDomainCredentials :: "manager \<Rightarrow> string \<Rightarrow> string" where
  "getDomainCredentials m url =
     (if trustedDomains m = [] then ''same-origin''
      else if (\<exists>domainWithProtocol \<in> set (trustedDomains m). startsWith url domainWithProtocol)
        then ''include''
      else ''same-origin'')"

text \<open>
  \<open>fetchAuthorizedDomains\<close> awaits \<^verbatim>\<open>this.getPortal()\<close> unless the manager is for one server
  or has no portal. \<^verbatim>\<open>getPortal\<close> keeps its own cache and its own pending promise, which no
  other method reads; the chain sees only what its promise settles to.
\<close>

definition fetchAuthorizedDomains :: "manager \<Rightarrow> unit task" where
  "fetchAuthorizedDomains m =
     (if truthy (server m) \<or> portal m = [] then Settled (Inr ())
      else
        then_task (GetPortal Settled)
          (\<lambda>portalInfo.
             Sync (\<lambda>n m'.
               ((case authorizedCrossOriginDomains portalInfo of
                   None \<Rightarrow> m'
                 | Some ds \<Rightarrow>
                     if ds \<noteq> []
                     then m'\<lparr> trustedDomains :=
                            map (\<lambda>d. if startsWith d ''https://'' then d else ''https://'' @ d)
                              (filter (\<lambda>d. \<not> startsWith d ''http://'') ds) \<rparr>
                     else m'),
                Settled (Inr ())))))"

text \<open>
  The three callbacks of the chain in \<open>getTokenForServer\<close>, in the order of the source.
  The first reads the \<^verbatim>\<open>/rest/info\<close> of the server.
\<close>

definition server_info_callback ::
  "externals \<Rightarrow> string \<Rightarrow> string \<Rightarrow> request_options option \<Rightarrow> server_info \<Rightarrow> server_info task" where
  "server_info_callback X url root requestOptions serverInfo =
     Sync (\<lambda>n m.
       (m,
        if truthy (owningSystemUrl serverInfo) then
          (if \<not> isFederated X (the (owningSystemUrl serverInfo)) (portal m)
           then Settled (Inl (ArcGISTokenRequestError
                  (url @ '' is not federated with '' @ portal m @ ''.'') NOT_FEDERATED None))
           else RequestInfo (the (owningSystemUrl serverInfo) @ ''/sharing/rest/info'')
                  requestOptions Settled)
        else if authInfo serverInfo \<noteq> None \<and> federatedServers m root \<noteq> None then
          Settled (Inr \<lparr> owningSystemUrl = None, authInfo = authInfo serverInfo \<rparr>)
        else
          Settled (Inl (ArcGISTokenRequestError
            (url @ '' is not federated with any portal and is not explicitly trusted.'')
            NOT_FEDERATED None))))"

text \<open>
  \<^verbatim>\<open>this.generateTokenForServer(serverInfo.authInfo.tokenServicesUrl, root)\<close>: the argument is
  read first, and throws when \<^verbatim>\<open>authInfo\<close> is \<^verbatim>\<open>undefined\<close>.
\<close>

definition generate_for :: "manager \<Rightarrow> server_info \<Rightarrow> string \<Rightarrow> fed_entry task" where
  "generate_for m serverInfo root =
     (case authInfo serverInfo of
        None \<Rightarrow> Settled (Inl undefined_read)
      | Some ai \<Rightarrow> generateTokenForServer m (tokenServicesUrl ai) root)"

text \<open>
  The second callback: \<^verbatim>\<open>this.token && this.tokenExpires.getTime() < Date.now()\<close> throws when
  there is a token and no expiry. An error thrown inside a callback rejects the chain.
\<close>

definition token_callback ::
  "externals \<Rightarrow> string \<Rightarrow> server_info \<Rightarrow> fed_entry task" where
  "token_callback X root serverInfo =
     Sync (\<lambda>n m.
       if truthy (token m) \<and> tokenExpires m = None then (m, Settled (Inl undefined_read))
       else if truthy (token m) \<and> the (tokenExpires m) < n then
         (if truthy (server m) then
            (case refreshCredentials X None n m of
               (m1, Inl e) \<Rightarrow> (m1, Settled (Inl e))
             | (m1, Inr t) \<Rightarrow>
                 (m1, then_task t
                        (\<lambda>_. Sync (\<lambda>n' m'.
                           (m', Settled (Inr \<lparr> fs_token = token m',
                                                fs_expires = tokenExpires m' \<rparr>))))))
          else
            (case refreshCredentials X None n m of
               (m1, Inl e) \<Rightarrow> (m1, Settled (Inl e))
             | (m1, Inr t) \<Rightarrow>
                 (m1, then_task t
                        (\<lambda>_. Sync (\<lambda>n' m'. (m', generate_for m' serverInfo root))))))
       else (m, generate_for m serverInfo root))"

text \<open>The third callback stores the entry and deletes the pending marker.\<close>

definition store_callback :: "string \<Rightarrow> fed_entry \<Rightarrow> (string option) task" where
  "store_callback root response =
     Sync (\<lambda>n m.
       (m\<lparr> federatedServers := (federatedServers m)(root \<mapsto> response),
            pendingTokenRequests := (pendingTokenRequests m)(root := None) \<rparr>,
        Settled (Inr (fs_token response))))"

text \<open>The callback of \<^verbatim>\<open>fetchAuthorizedDomains().then\<close>: the request and its chain.\<close>

definition negotiate ::
  "externals \<Rightarrow> string \<Rightarrow> string \<Rightarrow> request_options option \<Rightarrow> (string option) task" where
  "negotiate X url root requestOptions =
     Sync (\<lambda>n m.
       (m,
        then_task
          (then_task
             (then_task
                (RequestInfo (root @ ''/rest/info'')
                   (Some \<lparr> params = None,
                           credentials = Some (getDomainCredentials m url),
                           httpMethod = None \<rparr>)
                   Settled)
                (server_info_callback X url root requestOptions))
             (token_callback X root))
          (store_callback root)))"

section \<open>The manager among its pending operations\<close>

text \<open>
  The promises stored in \<open>pendingTokenRequests\<close> are numbered; \<open>ops\<close> gives the chain
  behind each. A call returns \<^verbatim>\<open>Promise.resolve(v)\<close> (\<open>Resolved v\<close>) or a stored promise
  (\<open>Op p\<close>), or throws (\<open>Inl\<close>).
\<close>

record world =
  mgr :: manager
  ops :: "nat \<Rightarrow> (string option) task option"
  next_op :: nat

datatype 'a promise = Resolved 'a | Op nat

definition getFreshToken ::
  "externals \<Rightarrow> request_options option \<Rightarrow> time \<Rightarrow> world
     \<Rightarrow> (js_error + (string option) promise) \<times> world" where
  "getFreshToken X requestOptions now w =
     (let m = mgr w in
      if truthy (token m) \<and> tokenExpires m = None then (Inr (Resolved (token m)), w)
      else if truthy (token m) \<and> tokenExpires m \<noteq> None \<and> the (tokenExpires m) > now
        then (Inr (Resolved (token m)), w)
      else
        (case pendingTokenRequests m (portal m) of
           Some (Some p) \<Rightarrow> (Inr (Op p), w)
         | _ \<Rightarrow>
             (case refreshCredentials X requestOptions now m of
                (m1, Inl e) \<Rightarrow> (Inl e, w\<lparr> mgr := m1 \<rparr>)
              | (m1, Inr t) \<Rightarrow>
                  (let p = next_op w in
                   (Inr (Op p),
                    w\<lparr> mgr := m1\<lparr> pendingTokenRequests :=
                                  (pendingTokenRequests m1)(portal m1 \<mapsto> Some p) \<rparr>,
                        ops := (ops w)(p \<mapsto>
                          then_task t
                            (\<lambda>_. Sync (\<lambda>n m'.
                               (m'\<lparr> pendingTokenRequests :=
                                      (pendingTokenRequests m')(portal m' \<mapsto> None) \<rparr>,
                                Settled (Inr (token m')))))),
                        next_op := Suc p \<rparr>)))))"

text \<open>An entry of \<open>federatedServers\<close> that has an expiry later than now.\<close>

definition unexpired :: "fed_entry option \<Rightarrow> time \<Rightarrow> bool" where
  "unexpired existingToken now =
     (case existingToken of
        None \<Rightarrow> False
      | Some ex \<Rightarrow> (case fs_expires ex of None \<Rightarrow> False | Some e \<Rightarrow> e > now))"

definition getTokenForServer ::
  "externals \<Rightarrow> string \<Rightarrow> request_options option \<Rightarrow> time \<Rightarrow> world
     \<Rightarrow> (js_error + (string option) promise) \<times> world" where
  "getTokenForServer X url requestOptions now w =
     (case getServerRootUrl X url of
        Inl e \<Rightarrow> (Inl e, w)
      | Inr root \<Rightarrow>
          (let m = mgr w; existingToken = federatedServers m root in
           if unexpired existingToken now
             then (Inr (Resolved (fs_token (the existingToken))), w)
           else
             (case pendingTokenRequests m root of
                Some (Some p) \<Rightarrow> (Inr (Op p), w)
              | _ \<Rightarrow>
                  (let p = next_op w in
                   (Inr (Op p),
                    w\<lparr> mgr := m\<lparr> pendingTokenRequests :=
                                  (pendingTokenRequests m)(root \<mapsto> Some p) \<rparr>,
                        ops := (ops w)(p \<mapsto>
                          then_task (fetchAuthorizedDomains m)
                            (\<lambda>_. negotiate X url root requestOptions)),
                        next_op := Suc p \<rparr>)))))"



text \<open>The public \<open>updateToken\<close>, on the manager of a world.\<close>

definition call_updateToken :: "string option \<Rightarrow> date option \<Rightarrow> world \<Rightarrow> world" where
  "call_updateToken newToken newTokenExpiration w =
     w\<lparr> mgr := updateToken newToken newTokenExpiration (mgr w) \<rparr>"

definition new_world :: "manager \<Rightarrow> world" where
  "new_world m = \<lparr> mgr = m, ops = (\<lambda>p. None), next_op = 0 \<rparr>"

section \<open>Concrete managers\<close>

text \<open>The manager that \<^verbatim>\<open>new ArcGISIdentityManager({})\<close> builds.\<close>

definition plain_manager :: manager where
  "plain_manager =
     \<lparr> clientId = None, refreshToken = None, refreshTokenExpires = None,
       priv_username = None, password = None, token = None, tokenExpires = None,
       portal = ''https://www.arcgis.com/sharing/rest'', ssl = None, provider = ''arcgis'',
       tokenDuration = 20160, redirectUri = None, server = None,
       federatedServers = Map.empty, trustedDomains = [],
       pendingTokenRequests = Map.empty, priv_user = None,
       priv_pendingUserRequest = None, priv_portalInfo = None,
       priv_pendingPortalRequest = None \<rparr>"

text \<open>
  A manager signed in with a user name and a password, its token expired at 1000: what the
  constructor builds from \<open>password_options\<close>.
\<close>

definition password_options :: options where
  "password_options =
     \<lparr> o_clientId = None, o_refreshToken = None, o_refreshTokenExpires = None,
       o_username = Some ''jsmith'', o_password = Some ''secret'', o_token = Some ''old'',
       o_tokenExpires = Some 1000, o_portal = None, o_ssl = None, o_provider = None,
       o_tokenDuration = None, o_redirectUri = None, o_server = None \<rparr>"

definition password_manager :: manager where
  "password_manager =
     plain_manager\<lparr> priv_username := Some ''jsmith'', password := Some ''secret'',
                    token := Some ''old'', tokenExpires := Some 1000 \<rparr>"

text \<open>A manager from OAuth: a client id and a refresh token that expires at \<open>exp\<close>.\<close>

definition oauth_manager :: "date \<Rightarrow> manager" where
  "oauth_manager exp =
     plain_manager\<lparr> clientId := Some ''app'', refreshToken := Some ''rt'',
                    refreshTokenExpires := Some exp, redirectUri := Some ''https://app/cb'',
                    token := Some ''old'', tokenExpires := Some 1000 \<rparr>"

text \<open>
  A manager built from a token alone (\<open>token_options\<close>): nothing to refresh it with.
\<close>

definition token_options :: options where
  "token_options =
     \<lparr> o_clientId = None, o_refreshToken = None, o_refreshTokenExpires = None,
       o_username = None, o_password = None, o_token = Some ''old'',
       o_tokenExpires = Some 1000, o_portal = None, o_ssl = None, o_provider = None,
       o_tokenDuration = None, o_redirectUri = None, o_server = None \<rparr>"

definition token_manager :: manager where
  "token_manager = plain_manager\<lparr> token := Some ''old'', tokenExpires := Some 1000 \<rparr>"

definition sample_fetch_response :: fetch_token_response where
  "sample_fetch_response =
     \<lparr> ft_token = ''new'', ft_username = ''jsmith'', ft_expires = 9000000, ft_ssl = True,
       ft_refreshToken = Some ''rt2'', ft_refreshTokenExpires = Some 900000000 \<rparr>"

text \<open>A service URL and its root, and a server whose portal is another one.\<close>

definition sample_url :: string where
  "sample_url = ''https://Foo.Com/arcgis/rest/services/X/FeatureServer''"

definition sample_root :: string where
  "sample_root = ''https://foo.com/arcgis''"

definition foreign_server_info :: server_info where
  "foreign_server_info =
     \<lparr> owningSystemUrl = Some ''https://other.example.com/portal'', authInfo = None \<rparr>"

definition sample_portal_info :: portal_info where
  "sample_portal_info =
     \<lparr> authorizedCrossOriginDomains =
         Some [''secure.example.com'', ''http://plain.example.com''] \<rparr>"




definition sample_token_response :: generate_token_response where
  "sample_token_response = \<lparr> gt_token = ''new'', gt_expires = 9000000 \<rparr>"

text \<open>
  The options of a manager for one server, and the manager the constructor builds from them.
\<close>

definition server_options :: options where
  "server_options =
     \<lparr> o_clientId = None, o_refreshToken = None, o_refreshTokenExpires = None,
       o_username = None, o_password = None, o_token = Some ''t'',
       o_tokenExpires = Some 1000, o_portal = None, o_ssl = None, o_provider = None,
       o_tokenDuration = None, o_redirectUri = None,
       o_server = Some ''https://Foo.Com/arcgis'' \<rparr>"

definition server_manager :: manager where
  "server_manager =
     plain_manager\<lparr> token := Some ''t'', tokenExpires := Some 1000,
                    server := Some ''https://Foo.Com/arcgis'',
                    federatedServers :=
                      [sample_root \<mapsto> \<lparr> fs_token = Some ''t'', fs_expires = Some 1000 \<rparr>] \<rparr>"

section \<open>What a chain may change\<close>

text \<open>
  \<open>keeps g t\<close>: no callback of the chain \<open>t\<close>, whatever the transport answers and
  whenever the callbacks run, changes the part \<open>g\<close> of the manager.
\<close>

primrec keeps :: "(manager \<Rightarrow> 'x) \<Rightarrow> 'a task \<Rightarrow> bool" where
  "keeps g (Settled r) = True"
| "keeps g (RequestInfo u opts k) = (\<forall>r. keeps g (k r))"
| "keeps g (RequestToken u opts k) = (\<forall>r. keeps g (k r))"
| "keeps g (FetchToken u opts k) = (\<forall>r. keeps g (k r))"
| "keeps g (GetPortal k) = (\<forall>r. keeps g (k r))"
| "keeps g (Sync c) = (\<forall>n m. g (fst (c n m)) = g m \<and> snd (map_prod id (keeps g) (c n m)))"

text \<open>The two caches of the manager that \<open>getTokenForServer\<close> works on.\<close>

definition caches :: "manager \<Rightarrow> (string \<rightharpoonup> fed_entry) \<times> (string \<rightharpoonup> nat option)" where
  "caches m = (federatedServers m, pendingTokenRequests m)"

text \<open>
  \<open>stores_last root t\<close>: a callback of \<open>t\<close> either leaves both caches as they are and the
  chain unresolved, or it is the last one: it resolves the chain to the token of an entry,
  stores that entry under \<open>root\<close> and deletes the pending marker of \<open>root\<close>.
\<close>

primrec stores_last :: "string \<Rightarrow> (string option) task \<Rightarrow> bool" where
  "stores_last root (Settled r) = (case r of Inl e \<Rightarrow> True | Inr v \<Rightarrow> False)"
| "stores_last root (RequestInfo u opts k) = (\<forall>r. stores_last root (k r))"
| "stores_last root (RequestToken u opts k) = (\<forall>r. stores_last root (k r))"
| "stores_last root (FetchToken u opts k) = (\<forall>r. stores_last root (k r))"
| "stores_last root (GetPortal k) = (\<forall>r. stores_last root (k r))"
| "stores_last root (Sync c) =
     (\<forall>n m. (caches (fst (c n m)) = caches m
               \<and> snd (map_prod id (stores_last root) (c n m)))
            \<or> (\<exists>entry. snd (c n m) = Settled (Inr (fs_token entry))
                  \<and> caches (fst (c n m))
                      = ((federatedServers m)(root \<mapsto> entry),
                         (pendingTokenRequests m)(root := None))))"

text \<open>
  \<open>writes_last t\<close>: a callback of \<open>t\<close> either leaves the manager as it is, or it is the
  last one and resolves the chain.
\<close>

primrec writes_last :: "'a task \<Rightarrow> bool" where
  "writes_last (Settled r) = True"
| "writes_last (RequestInfo u opts k) = (\<forall>r. writes_last (k r))"
| "writes_last (RequestToken u opts k) = (\<forall>r. writes_last (k r))"
| "writes_last (FetchToken u opts k) = (\<forall>r. writes_last (k r))"
| "writes_last (GetPortal k) = (\<forall>r. writes_last (k r))"
| "writes_last (Sync c) =
     (\<forall>n m. (fst (c n m) = m \<and> snd (map_prod id writes_last (c n m)))
            \<or> (\<exists>v. snd (c n m) = Settled (Inr v)))"

text \<open>
  The events of \<open>fetchAuthorizedDomains\<close> when \<^verbatim>\<open>getPortal\<close> resolves to \<open>portalInfo\<close>: none
  when the manager is for one server or has no portal, else the answer and the callback
  that stores the trusted domains.
\<close>

definition domains_events :: "manager \<Rightarrow> portal_info \<Rightarrow> time \<Rightarrow> event list" where
  "domains_events m portalInfo n =
     (if truthy (server m) \<or> portal m = [] then []
      else [PortalReply (Inr portalInfo), Tick n])"

section \<open>Basic facts\<close>

lemma truthy_None [simp]: "\<not> truthy None"
  by (simp add: truthy_def)

lemma truthy_Some [simp]: "truthy (Some s) = (s \<noteq> [])"
  by (simp add: truthy_def)

section \<open>Induction on chains, and running them\<close>

lemma task_induct2 [case_names Settled RequestInfo RequestToken FetchToken GetPortal Sync]:
  assumes a1: "\<And>r. P (Settled r)"
    and a2: "\<And>u opts k. (\<And>r. P (k r)) \<Longrightarrow> P (RequestInfo u opts k)"
    and a3: "\<And>u opts k. (\<And>r. P (k r)) \<Longrightarrow> P (RequestToken u opts k)"
    and a4: "\<And>u opts k. (\<And>r. P (k r)) \<Longrightarrow> P (FetchToken u opts k)"
    and a5: "\<And>k. (\<And>r. P (k r)) \<Longrightarrow> P (GetPortal k)"
    and a6: "\<And>c. (\<And>n m. P (snd (c n m))) \<Longrightarrow> P (Sync c)"
  shows "P t"
proof (induction t)
  case (Settled x)
  show ?case by (rule a1)
next
  case (RequestInfo x1 x2 x3)
  show ?case by (rule a2) (rule RequestInfo, rule rangeI)
next
  case (RequestToken x1 x2 x3)
  show ?case by (rule a3) (rule RequestToken, rule rangeI)
next
  case (FetchToken x1 x2 x3)
  show ?case by (rule a4) (rule FetchToken, rule rangeI)
next
  case (GetPortal x)
  show ?case by (rule a5) (rule GetPortal, rule rangeI)
next
  case (Sync c)
  show ?case
  proof (rule a6)
    fix n m
    have "snd (c n m) \<in> Basic_BNFs.snds (c n m)"
      by (cases "c n m") (simp add: prod_set_simps)
    with rangeI [of c n] rangeI [of "c n" m] show "P (snd (c n m))" by (rule Sync)
  qed
qed

lemma keeps_Sync:
  "keeps g (Sync c) = (\<forall>n m. g (fst (c n m)) = g m \<and> keeps g (snd (c n m)))"
  by simp

lemma stores_last_Sync:
  "stores_last root (Sync c) =
     (\<forall>n m. (caches (fst (c n m)) = caches m \<and> stores_last root (snd (c n m)))
            \<or> (\<exists>entry. snd (c n m) = Settled (Inr (fs_token entry))
                  \<and> caches (fst (c n m))
                      = ((federatedServers m)(root \<mapsto> entry),
                         (pendingTokenRequests m)(root := None))))"
  by simp

lemma writes_last_Sync:
  "writes_last (Sync c) =
     (\<forall>n m. (fst (c n m) = m \<and> writes_last (snd (c n m)))
            \<or> (\<exists>v. snd (c n m) = Settled (Inr v)))"
  by simp

lemma keeps_then: "keeps g t \<Longrightarrow> (\<And>v. keeps g (f v)) \<Longrightarrow> keeps g (then_task t f)"
  by (induction t rule: task_induct2) (auto split: sum.splits)

lemma keeps_catch: "keeps g t \<Longrightarrow> (\<And>e. keeps g (h e)) \<Longrightarrow> keeps g (catch_task t h)"
  by (induction t rule: task_induct2) (auto split: sum.splits)

lemma stores_last_then:
  "keeps caches t \<Longrightarrow> (\<And>v. stores_last root (f v)) \<Longrightarrow> stores_last root (then_task t f)"
  by (induction t rule: task_induct2) (auto split: sum.splits)

lemma writes_last_catch:
  "writes_last t \<Longrightarrow> (\<And>e. writes_last (h e)) \<Longrightarrow> writes_last (catch_task t h)"
proof (induction t rule: task_induct2)
  case (Sync c)
  have "(fst (c n m) = m \<and> writes_last (catch_task (snd (c n m)) h))
        \<or> (\<exists>v. catch_task (snd (c n m)) h = Settled (Inr v))" for n m
  proof -
    from Sync.prems(1)
    have "(fst (c n m) = m \<and> writes_last (snd (c n m))) \<or> (\<exists>v. snd (c n m) = Settled (Inr v))"
      by (simp add: writes_last_Sync)
    then show ?thesis
    proof
      assume "fst (c n m) = m \<and> writes_last (snd (c n m))"
      with Sync.IH [of n m] Sync.prems(2) show ?thesis by simp
    next
      assume "\<exists>v. snd (c n m) = Settled (Inr v)"
      then show ?thesis by auto
    qed
  qed
  then show ?case by simp
qed (auto split: sum.splits)

lemma step_then:
  "step ev m t = Some (m', t') \<Longrightarrow> step ev m (then_task t f) = Some (m', then_task t' f)"
  by (cases ev; cases t) auto

lemma run_then:
  "run evs m t = Some (m', Settled (Inr v)) \<Longrightarrow> run evs m (then_task t f) = Some (m', f v)"
proof (induction evs arbitrary: m t)
  case Nil
  then show ?case by simp
next
  case (Cons ev evs)
  then obtain m1 t1 where s: "step ev m t = Some (m1, t1)"
    and r: "run evs m1 t1 = Some (m', Settled (Inr v))"
    by (auto split: option.splits)
  from s have "step ev m (then_task t f) = Some (m1, then_task t1 f)" by (rule step_then)
  with Cons.IH [OF r] show ?case by simp
qed

lemma run_then_rejected:
  "run evs m t = Some (m', Settled (Inl e)) \<Longrightarrow>
   run evs m (then_task t f) = Some (m', Settled (Inl e))"
proof (induction evs arbitrary: m t)
  case Nil
  then show ?case by simp
next
  case (Cons ev evs)
  then obtain m1 t1 where s: "step ev m t = Some (m1, t1)"
    and r: "run evs m1 t1 = Some (m', Settled (Inl e))"
    by (auto split: option.splits)
  from s have "step ev m (then_task t f) = Some (m1, then_task t1 f)" by (rule step_then)
  with Cons.IH [OF r] show ?case by simp
qed

lemma run_append:
  "run (evs @ evs') m t =
     (case run evs m t of None \<Rightarrow> None | Some (m', t') \<Rightarrow> run evs' m' t')"
  by (induction evs arbitrary: m t) (auto split: option.splits)

lemma keeps_step:
  "keeps g t \<Longrightarrow> step ev m t = Some (m', t') \<Longrightarrow> g m' = g m \<and> keeps g t'"
  by (cases ev; cases t) (auto simp: prod_eq_iff)

lemma keeps_run:
  "keeps g t \<Longrightarrow> run evs m t = Some (m', t') \<Longrightarrow> g m' = g m \<and> keeps g t'"
proof (induction evs arbitrary: m t)
  case Nil
  then show ?case by simp
next
  case (Cons ev evs)
  then obtain m1 t1 where s: "step ev m t = Some (m1, t1)"
    and r: "run evs m1 t1 = Some (m', t')"
    by (auto split: option.splits)
  from keeps_step [OF Cons.prems(1) s] Cons.IH [OF _ r] show ?case by simp
qed

lemma stores_last_step:
  "stores_last root t \<Longrightarrow> step ev m t = Some (m', t') \<Longrightarrow>
     (caches m' = caches m \<and> stores_last root t')
     \<or> (\<exists>entry. t' = Settled (Inr (fs_token entry))
           \<and> caches m' = ((federatedServers m)(root \<mapsto> entry),
                            (pendingTokenRequests m)(root := None)))"
  by (cases ev; cases t) (auto simp: prod_eq_iff)

lemma stores_last_run:
  "stores_last root t \<Longrightarrow> run evs m t = Some (m', t') \<Longrightarrow>
     (caches m' = caches m \<and> stores_last root t')
     \<or> (\<exists>entry. t' = Settled (Inr (fs_token entry))
           \<and> caches m' = ((federatedServers m)(root \<mapsto> entry),
                            (pendingTokenRequests m)(root := None)))"
proof (induction evs arbitrary: m t)
  case Nil
  then show ?case by simp
next
  case (Cons ev evs)
  then obtain m1 t1 where s: "step ev m t = Some (m1, t1)"
    and r: "run evs m1 t1 = Some (m', t')"
    by (auto split: option.splits)
  from stores_last_step [OF Cons.prems(1) s]
  show ?case
  proof
    assume a: "caches m1 = caches m \<and> stores_last root t1"
    then have "federatedServers m1 = federatedServers m"
      and "pendingTokenRequests m1 = pendingTokenRequests m"
      by (simp_all add: caches_def)
    with a Cons.IH [OF _ r] show ?thesis by simp
  next
    assume "\<exists>entry. t1 = Settled (Inr (fs_token entry))
           \<and> caches m1 = ((federatedServers m)(root \<mapsto> entry),
                            (pendingTokenRequests m)(root := None))"
    then obtain entry where t1: "t1 = Settled (Inr (fs_token entry))"
      and f: "caches m1 = ((federatedServers m)(root \<mapsto> entry),
                            (pendingTokenRequests m)(root := None))" by blast
    from r t1 have "evs = []" by (cases evs) auto
    with r t1 have "m' = m1" and "t' = Settled (Inr (fs_token entry))" by simp_all
    with f show ?thesis by blast
  qed
qed



section \<open>The chain of getTokenForServer writes its caches last\<close>

lemma keeps_caches_generateTokenForServer:
  "keeps caches (generateTokenForServer m u s)"
  by (simp add: generateTokenForServer_def caches_def split: sum.splits)

lemma keeps_caches_generate_for: "keeps caches (generate_for m si root)"
  by (simp add: generate_for_def keeps_caches_generateTokenForServer split: option.splits)

lemma keeps_caches_exchangeRefreshToken: "keeps caches (exchangeRefreshToken ro m)"
  by (simp add: exchangeRefreshToken_def caches_def split: sum.splits)

lemma keeps_caches_refreshWithRefreshToken:
  "keeps caches (refreshWithRefreshToken ro now m)"
  by (simp add: refreshWithRefreshToken_def keeps_caches_exchangeRefreshToken updateToken_def
      caches_def split: sum.splits)

lemma keeps_caches_refreshWithUsernameAndPassword:
  "refreshWithUsernameAndPassword X ro m = Inr t \<Longrightarrow> keeps caches t"
  by (auto simp add: refreshWithUsernameAndPassword_def Let_def updateToken_def caches_def
      split: sum.splits if_splits option.splits)

lemma keeps_caches_refreshCredentials:
  "refreshCredentials X ro now m = (m1, Inr t) \<Longrightarrow> caches m1 = caches m \<and> keeps caches t"
  by (auto simp add: refreshCredentials_def Let_def keeps_caches_refreshWithRefreshToken
      keeps_caches_refreshWithUsernameAndPassword caches_def split: if_splits)

lemma caches_refreshCredentials:
  "refreshCredentials X ro now m = (m1, r) \<Longrightarrow> caches m1 = caches m"
  by (auto simp add: refreshCredentials_def Let_def caches_def split: if_splits)

lemma keeps_caches_fetchAuthorizedDomains: "keeps caches (fetchAuthorizedDomains m)"
  by (simp add: fetchAuthorizedDomains_def caches_def split: sum.splits option.splits)

lemma keeps_caches_server_info_callback:
  "keeps caches (server_info_callback X url root ro si)"
  by (simp add: server_info_callback_def caches_def split: sum.splits)

lemma keeps_caches_token_callback: "keeps caches (token_callback X root si)"
  by (auto simp add: token_callback_def keeps_Sync keeps_caches_generate_for keeps_then
      split: prod.splits sum.splits
      dest: keeps_caches_refreshCredentials caches_refreshCredentials)

lemma stores_last_store_callback: "stores_last root (store_callback root entry)"
  by (simp add: store_callback_def caches_def) blast

lemma stores_last_negotiate: "stores_last root (negotiate X url root ro)"
  unfolding negotiate_def stores_last_Sync
  by (auto split: sum.splits
      intro!: stores_last_then keeps_then stores_last_store_callback
        keeps_caches_server_info_callback keeps_caches_token_callback)

lemma stores_last_getTokenForServer_chain:
  "stores_last root (then_task (fetchAuthorizedDomains m) (\<lambda>_. negotiate X url root ro))"
  by (intro stores_last_then keeps_caches_fetchAuthorizedDomains stores_last_negotiate)

lemma stores_last_unresolved: "stores_last root t \<Longrightarrow> t \<noteq> Settled (Inr v)"
  by auto


lemma getTokenForServer_starts:
  assumes root: "getServerRootUrl X url = Inr root"
    and fresh: "\<not> unexpired (federatedServers (mgr w) root) now"
    and idle: "\<forall>p. pendingTokenRequests (mgr w) root \<noteq> Some (Some p)"
  shows "getTokenForServer X url ro now w =
     (Inr (Op (next_op w)),
      w\<lparr> mgr := (mgr w)\<lparr> pendingTokenRequests :=
                    (pendingTokenRequests (mgr w))(root \<mapsto> Some (next_op w)) \<rparr>,
          ops := (ops w)(next_op w \<mapsto>
            then_task (fetchAuthorizedDomains (mgr w)) (\<lambda>_. negotiate X url root ro)),
          next_op := Suc (next_op w) \<rparr>)"
  using assms by (auto simp add: getTokenForServer_def Let_def split: option.splits)

lemma run_negotiate_not_federated:
  assumes "truthy (owningSystemUrl si)"
    and "\<not> isFederated X (the (owningSystemUrl si)) (portal m)"
  shows "run [Tick n1, InfoReply (Inr si), Tick n2] m (negotiate X url root ro)
         = Some (m, Settled (Inl (ArcGISTokenRequestError
                   (url @ '' is not federated with '' @ portal m @ ''.'') NOT_FEDERATED None)))"
  using assms by (simp add: negotiate_def server_info_callback_def)

lemma run_domains_events:
  "\<exists>m'. run (domains_events m portalInfo n) m1 (fetchAuthorizedDomains m)
           = Some (m', Settled (Inr ()))
        \<and> federatedServers m' = federatedServers m1 \<and> portal m' = portal m1"
  by (simp add: domains_events_def fetchAuthorizedDomains_def split: option.splits)

lemma sample_root_eval: "getServerRootUrl sample_externals sample_url = Inr sample_root"
  unfolding sample_url_def sample_root_def by code_simp

lemma foreign_not_federated:
  "\<not> isFederated sample_externals (the (owningSystemUrl foreign_server_info))
       (portal (mgr (new_world password_manager)))"
  unfolding foreign_server_info_def new_world_def password_manager_def plain_manager_def
  by code_simp

section \<open>A rejected operation keeps its pending entry\<close>











section \<open>A resolved operation clears its pending entry\<close>



section \<open>Concrete calls\<close>

lemmas sample_defs = new_world_def password_manager_def plain_manager_def

lemma getFreshToken_password_manager:
  "getFreshToken sample_externals None 5000 (new_world password_manager) =
     (Inr (Op 0),
      \<lparr> mgr = password_manager\<lparr> pendingTokenRequests :=
                 [''https://www.arcgis.com/sharing/rest'' \<mapsto> Some 0] \<rparr>,
        ops = (\<lambda>p. None)(0 \<mapsto>
          then_task (projr (refreshWithUsernameAndPassword sample_externals None password_manager))
            (\<lambda>_. Sync (\<lambda>n m'.
               (m'\<lparr> pendingTokenRequests :=
                      (pendingTokenRequests m')(portal m' \<mapsto> None) \<rparr>,
                Settled (Inr (token m')))))),
        next_op = Suc 0 \<rparr>)"
  by (simp add: getFreshToken_def Let_def sample_defs
      refreshCredentials_def username_def refreshWithUsernameAndPassword_def)


lemma refreshCredentials_password_manager:
  "refreshCredentials sample_externals None 5000 password_manager =
     (password_manager,
      Inr (projr (refreshWithUsernameAndPassword sample_externals None password_manager)))"
  by (simp add: refreshCredentials_def Let_def username_def sample_defs
      refreshWithUsernameAndPassword_def)

lemma run_refresh_password_manager:
  "run [TokenReply (Inr sample_token_response), Tick 5001] m
       (projr (refreshWithUsernameAndPassword sample_externals None password_manager))
     = Some (m\<lparr> token := Some ''new'', tokenExpires := Some 9000000 \<rparr>, Settled (Inr ()))"
  by (simp add: refreshWithUsernameAndPassword_def sample_defs sample_token_response_def
      Let_def updateToken_def)






section \<open>The constructor\<close>

lemma username_falsy_or_truthy: "username m = None \<or> truthy (username m)"
  by (auto simp add: username_def split: option.splits)

lemma server_root_eval:
  "getServerRootUrl sample_externals ''https://Foo.Com/arcgis'' = Inr sample_root"
  unfolding sample_root_def by code_simp

lemma cleanUrl_sample: "cleanUrl sample_externals = strip_trailing_slash"
  by (simp add: sample_externals_def)

lemma clean_default_portal:
  "strip_trailing_slash ''https://www.arcgis.com/sharing/rest''
     = ''https://www.arcgis.com/sharing/rest''"
  by code_simp

lemma new_manager_server_options: "new_manager sample_externals server_options = Inr server_manager"
  by (simp add: new_manager_def server_options_def server_manager_def plain_manager_def
      server_root_eval Let_def)

lemma new_manager_password_options:
  "new_manager sample_externals password_options = Inr password_manager"
  by (simp add: new_manager_def password_options_def password_manager_def plain_manager_def
      Let_def)

lemma new_manager_token_options: "new_manager sample_externals token_options = Inr token_manager"
  by (simp add: new_manager_def token_options_def token_manager_def plain_manager_def Let_def)

lemma new_manager_tokenDuration: "new_manager X opts = Inr m \<Longrightarrow> tokenDuration m \<noteq> 0"
  by (auto simp add: new_manager_def Let_def split: if_splits sum.splits option.splits)

lemma new_manager_server:
  "new_manager X opts = Inr m \<Longrightarrow> truthy (server m) \<Longrightarrow>
     \<exists>root. getServerRootUrl X (the (server m)) = Inr root
        \<and> federatedServers m = [root \<mapsto> \<lparr> fs_token = token m, fs_expires = tokenExpires m \<rparr>]"
  by (auto simp add: new_manager_def Let_def split: if_splits sum.splits)

section \<open>The root of a server URL\<close>

text \<open>
  What \<open>getServerRootUrl\<close> returns, in general. The text that the services pattern cuts is
  a prefix of the URL, cut at the leftmost match. When this prefix is a protocol, a host
  and a path below it, the result is the prefix with the host in lower case and the path as
  it is. When it is a protocol and a host alone, the result ends with a slash that the
  prefix does not have.
\<close>

lemma split_on_nonempty: "split_on c s \<noteq> []"
  by (induction s) auto

lemma split_on_host: "c \<notin> set h \<Longrightarrow> split_on c (h @ c # p) = h # split_on c p"
  by (induction h) auto

lemma split_on_host_only: "c \<notin> set h \<Longrightarrow> split_on c h = [h]"
  by (induction h) auto

lemma join_Cons_Cons: "ys \<noteq> [] \<Longrightarrow> join sep ((x # y) # ys) = x # join sep (y # ys)"
  by (cases ys) auto

lemma join_split_on: "join [c] (split_on c s) = s"
proof (induction s)
  case Nil
  then show ?case by simp
next
  case (Cons x xs)
  obtain y ys where r: "split_on c xs = y # ys"
    using split_on_nonempty [of c xs] by (cases "split_on c xs") auto
  show ?case
  proof (cases "x = c")
    case True
    with Cons r show ?thesis by simp
  next
    case False
    with Cons r show ?thesis by (cases ys) auto
  qed
qed

lemma dot_plus_all: "\<forall>c \<in> set s. \<not> line_terminator c \<Longrightarrow> dot_plus s = s"
  by (simp add: dot_plus_def)

lemma match_protocol_at_start:
  assumes "protocol = ''https://'' \<or> protocol = ''http://''"
    and "rest \<noteq> []"
    and "\<forall>c \<in> set rest. \<not> line_terminator c"
  shows "match_protocol (protocol @ rest) = Some (protocol, rest)"
  using assms by (auto simp add: protocol_match_here_def startsWith_def dot_plus_all)

lemma getServerRootUrl_with_path:
  assumes "split_services_first (cleanUrl X url) = protocol @ host @ ''/'' @ path"
    and "protocol = ''https://'' \<or> protocol = ''http://''"
    and "CHR ''/'' \<notin> set host"
    and "\<forall>c \<in> set (host @ path). \<not> line_terminator c"
  shows "getServerRootUrl X url = Inr (protocol @ toLowerCase host @ ''/'' @ path)"
proof -
  from assms(4) have "\<forall>c \<in> set (host @ ''/'' @ path). \<not> line_terminator c"
    by (auto simp add: line_terminator_def)
  with assms(2) have "match_protocol (protocol @ (host @ ''/'' @ path))
                        = Some (protocol, host @ ''/'' @ path)"
    by (intro match_protocol_at_start) simp_all
  moreover from assms(3) have "split_on CHR ''/'' (host @ ''/'' @ path)
                                 = host # split_on CHR ''/'' path"
    using split_on_host [of "CHR ''/''" host path] by simp
  moreover have "join ''/'' (split_on CHR ''/'' path) = path"
    using join_split_on [of "CHR ''/''" path] by simp
  ultimately show ?thesis
    using assms(1) by (simp add: getServerRootUrl_def Let_def)
qed

lemma getServerRootUrl_without_path:
  assumes "split_services_first (cleanUrl X url) = protocol @ host"
    and "protocol = ''https://'' \<or> protocol = ''http://''"
    and "host \<noteq> []"
    and "CHR ''/'' \<notin> set host"
    and "\<forall>c \<in> set host. \<not> line_terminator c"
  shows "getServerRootUrl X url = Inr (protocol @ toLowerCase host @ ''/'')"
proof -
  from assms(2,3,5) have "match_protocol (protocol @ host) = Some (protocol, host)"
    by (intro match_protocol_at_start) simp_all
  moreover from assms(4) have "split_on CHR ''/'' host = [host]"
    by (rule split_on_host_only)
  ultimately show ?thesis
    using assms(1) by (simp add: getServerRootUrl_def Let_def)
qed

lemma split_services_first_prefix:
  "\<exists>rest. s = split_services_first s @ rest \<and> (rest = [] \<or> services_match_here rest)"
  by (induction s) auto

lemma split_services_first_leftmost:
  "i < length (split_services_first s) \<Longrightarrow> \<not> services_match_here (drop i s)"
proof (induction s arbitrary: i)
  case Nil
  then show ?case by simp
next
  case (Cons c cs)
  then show ?case by (cases i) (auto split: if_splits)
qed

lemma toLowerCase_host: "toLowerCase ''Foo.Com'' = ''foo.com''"
  by code_simp

lemma split_example: 
  "split_services_first ''https://Foo.Com/arcgis/rest/services/X/FeatureServer''
     = ''https://Foo.Com/arcgis''"
  by code_simp

lemma split_host_only:
  "split_services_first ''https://Foo.Com/rest/services/X/FeatureServer'' = ''https://Foo.Com''"
  by code_simp

lemma split_services_first_cut:
  assumes "rest = [] \<or> services_match_here rest"
    and "\<forall>i < length pre. \<not> services_match_here (drop i (pre @ rest))"
  shows "split_services_first (pre @ rest) = pre"
  using assms
proof (induction pre)
  case Nil
  then show ?case by (cases rest) auto
next
  case (Cons c cs)
  from Cons.prems(2) have here: "\<not> services_match_here ((c # cs) @ rest)"
    by (auto dest: spec [of _ 0])
  have "\<forall>i < length cs. \<not> services_match_here (drop i (cs @ rest))"
  proof (intro allI impI)
    fix i assume "i < length cs"
    with Cons.prems(2) have "\<not> services_match_here (drop (Suc i) ((c # cs) @ rest))"
      by (auto dest!: spec [of _ "Suc i"])
    then show "\<not> services_match_here (drop i (cs @ rest))" by simp
  qed
  with Cons.IH Cons.prems(1) have "split_services_first (cs @ rest) = cs" by blast
  with here show ?case by simp
qed

lemma clean_sample_url:
  "cleanUrl sample_externals ''https://Foo.Com/arcgis/rest/services/X/FeatureServer''
     = ''https://Foo.Com/arcgis/rest/services/X/FeatureServer''"
  unfolding cleanUrl_sample by code_simp

lemma clean_host_only_url:
  "cleanUrl sample_externals ''https://Foo.Com/rest/services/X/FeatureServer''
     = ''https://Foo.Com/rest/services/X/FeatureServer''"
  unfolding cleanUrl_sample by code_simp

lemma services_match_example: "services_match_here ''/rest/services/X/FeatureServer''"
  by code_simp

section \<open>updateToken\<close>

text \<open>
  C10. \<open>updateToken\<close> sets \<open>token\<close> and \<open>tokenExpires\<close> to the values given and changes
  no other field of the manager: not the refresh token and its expiry, the user name and
  password, the portal, \<open>ssl\<close>, the token duration, the redirect URI, the server, the
  federated servers, the trusted domains, the pending requests or the snapshots. The manager
  returned is the one updated; the operations in flight are not touched.
\<close>

theorem updateToken_frame:
  "token (updateToken newToken newTokenExpiration m) = newToken
   \<and> tokenExpires (updateToken newToken newTokenExpiration m) = newTokenExpiration
   \<and> clientId (updateToken newToken newTokenExpiration m) = clientId m
   \<and> refreshToken (updateToken newToken newTokenExpiration m) = refreshToken m
   \<and> refreshTokenExpires (updateToken newToken newTokenExpiration m) = refreshTokenExpires m
   \<and> priv_username (updateToken newToken newTokenExpiration m) = priv_username m
   \<and> username (updateToken newToken newTokenExpiration m) = username m
   \<and> password (updateToken newToken newTokenExpiration m) = password m
   \<and> portal (updateToken newToken newTokenExpiration m) = portal m
   \<and> ssl (updateToken newToken newTokenExpiration m) = ssl m
   \<and> provider (updateToken newToken newTokenExpiration m) = provider m
   \<and> tokenDuration (updateToken newToken newTokenExpiration m) = tokenDuration m
   \<and> redirectUri (updateToken newToken newTokenExpiration m) = redirectUri m
   \<and> server (updateToken newToken newTokenExpiration m) = server m
   \<and> federatedServers (updateToken newToken newTokenExpiration m) = federatedServers m
   \<and> trustedDomains (updateToken newToken newTokenExpiration m) = trustedDomains m
   \<and> pendingTokenRequests (updateToken newToken newTokenExpiration m) = pendingTokenRequests m
   \<and> priv_user (updateToken newToken newTokenExpiration m) = priv_user m
   \<and> priv_pendingUserRequest (updateToken newToken newTokenExpiration m)
       = priv_pendingUserRequest m
   \<and> priv_portalInfo (updateToken newToken newTokenExpiration m) = priv_portalInfo m
   \<and> priv_pendingPortalRequest (updateToken newToken newTokenExpiration m)
       = priv_pendingPortalRequest m
   \<and> ops (call_updateToken newToken newTokenExpiration w) = ops w
   \<and> next_op (call_updateToken newToken newTokenExpiration w) = next_op w"
  by (simp add: updateToken_def username_def call_updateToken_def)

section \<open>generateTokenForServer\<close>

text \<open>
  C5. \<open>generateTokenForServer\<close> sends one request, to the token services URL. When the
  transport answers with a token that expires at \<open>T\<close>, the promise resolves to that token
  with the expiry \<open>T - 300000\<close> (five minutes earlier), and this is the entry that the last
  callback of \<open>getTokenForServer\<close> stores in \<open>federatedServers\<close> under the root. When the
  transport fails, the promise rejects with an error whose code is
  \<open>GENERATE_TOKEN_FOR_SERVER_FAILED\<close> and whose message and details are the transport's.
  \<open>generateTokenForServer\<close> itself does not change the manager.
\<close>

theorem generateTokenForServer_expiry:
  "awaited_url (generateTokenForServer m tokenUrl serverUrl) = Some tokenUrl
   \<and> run [TokenReply (Inr response)] m' (generateTokenForServer m tokenUrl serverUrl)
       = Some (m', Settled (Inr \<lparr> fs_token = Some (gt_token response),
                                   fs_expires = Some (gt_expires response - 300000) \<rparr>))
   \<and> run [TokenReply (Inr response), Tick n] m'
         (then_task (generateTokenForServer m tokenUrl serverUrl) (store_callback serverUrl))
       = Some (m'\<lparr> federatedServers := (federatedServers m')(serverUrl \<mapsto>
                       \<lparr> fs_token = Some (gt_token response),
                         fs_expires = Some (gt_expires response - 300000) \<rparr>),
                     pendingTokenRequests := (pendingTokenRequests m')(serverUrl := None) \<rparr>,
               Settled (Inr (Some (gt_token response))))
   \<and> run [TokenReply (Inl e)] m' (generateTokenForServer m tokenUrl serverUrl)
       = Some (m', Settled (Inl (ArcGISTokenRequestError (message_of e)
                                   GENERATE_TOKEN_FOR_SERVER_FAILED (detail_of e))))"
  by (simp add: generateTokenForServer_def wrap_error_def store_callback_def)

section \<open>refreshCredentials\<close>



section \<open>refreshWithRefreshToken\<close>

text \<open>
  C8. When the refresh token is present and expires within 24 hours
  (\<open>refreshTokenExpires - 86400000 < now\<close>), \<open>refreshWithRefreshToken\<close> is
  \<open>exchangeRefreshToken\<close>: the grant \<^verbatim>\<open>exchange_refresh_token\<close>, whose answer replaces the
  token, its expiry, the refresh token and its expiry. Otherwise it sends the grant
  \<^verbatim>\<open>refresh_token\<close> to \<^verbatim>\<open>{portal}/oauth2/token\<close>, and the answer replaces the token and its
  expiry and nothing else; a failure of the transport rejects with \<open>TOKEN_REFRESH_FAILED\<close>
  (with \<open>REFRESH_TOKEN_EXCHANGE_FAILED\<close> for the exchange) and changes nothing.
\<close>

theorem refreshWithRefreshToken_dispatch:
  "(truthy (refreshToken m) \<and> refreshTokenExpires m = Some e \<and> e - 86400000 < now
      \<longrightarrow> refreshWithRefreshToken requestOptions now m = exchangeRefreshToken requestOptions m)
   \<and> (\<not> (truthy (refreshToken m)
            \<and> (\<exists>e. refreshTokenExpires m = Some e \<and> e - 86400000 < now))
      \<longrightarrow> awaited_url (refreshWithRefreshToken requestOptions now m)
            = Some (portal m @ ''/oauth2/token'')
          \<and> awaited_options (refreshWithRefreshToken requestOptions now m)
            = Some (assign_params
                      [(''client_id'', PString (clientId m)),
                       (''refresh_token'', PString (refreshToken m)),
                       (''grant_type'', PString (Some ''refresh_token''))]
                      requestOptions)
          \<and> run [FetchReply (Inr response), Tick n] m'
                (refreshWithRefreshToken requestOptions now m)
            = Some (m'\<lparr> token := Some (ft_token response),
                          tokenExpires := Some (ft_expires response) \<rparr>,
                    Settled (Inr ()))
          \<and> run [FetchReply (Inl err)] m' (refreshWithRefreshToken requestOptions now m)
            = Some (m', Settled (Inl (ArcGISTokenRequestError (message_of err)
                                        TOKEN_REFRESH_FAILED (detail_of err)))))
   \<and> awaited_url (exchangeRefreshToken requestOptions m) = Some (portal m @ ''/oauth2/token'')
   \<and> awaited_options (exchangeRefreshToken requestOptions m)
       = Some (assign_params
                 [(''client_id'', PString (clientId m)),
                  (''refresh_token'', PString (refreshToken m)),
                  (''redirect_uri'', PString (redirectUri m)),
                  (''grant_type'', PString (Some ''exchange_refresh_token''))]
                 requestOptions)
   \<and> run [FetchReply (Inr response), Tick n] m' (exchangeRefreshToken requestOptions m)
       = Some (m'\<lparr> token := Some (ft_token response),
                     tokenExpires := Some (ft_expires response),
                     refreshToken := ft_refreshToken response,
                     refreshTokenExpires := ft_refreshTokenExpires response \<rparr>,
               Settled (Inr ()))
   \<and> run [FetchReply (Inl err)] m' (exchangeRefreshToken requestOptions m)
       = Some (m', Settled (Inl (ArcGISTokenRequestError (message_of err)
                                   REFRESH_TOKEN_EXCHANGE_FAILED (detail_of err))))"
  by (auto simp add: refreshWithRefreshToken_def exchangeRefreshToken_def
        ONE_DAY_IN_MILLISECONDS_def updateToken_def wrap_error_def)

theorem refreshWithRefreshToken_dispatch_witness:
  "refreshWithRefreshToken None 5000 (oauth_manager 80000000)
     = exchangeRefreshToken None (oauth_manager 80000000)
   \<and> run [FetchReply (Inr sample_fetch_response), Tick 6000] (oauth_manager 900000000)
        (refreshWithRefreshToken None 5000 (oauth_manager 900000000))
     = Some ((oauth_manager 900000000)\<lparr> token := Some ''new'', tokenExpires := Some 9000000 \<rparr>,
             Settled (Inr ()))
   \<and> map_of (the (params (the (awaited_options
        (refreshWithRefreshToken None 5000 (oauth_manager 900000000)))))) ''grant_type''
     = Some (PString (Some ''refresh_token''))"
  using refreshWithRefreshToken_dispatch
          [of "oauth_manager 80000000" 80000000 5000 None]
        refreshWithRefreshToken_dispatch
          [of "oauth_manager 900000000" 900000000 5000 None sample_fetch_response
              6000 "oauth_manager 900000000"]
  by (simp add: oauth_manager_def plain_manager_def sample_fetch_response_def
        assign_params_def)

section \<open>getTokenForServer: servers that are not federated\<close>

text \<open>
  C3. A call of \<open>getTokenForServer\<close> that finds no unexpired token for the root and no
  pending operation starts the negotiation, and does not touch \<open>federatedServers\<close> itself.
  However the chain then runs, \<open>federatedServers\<close> stays as it was until the chain
  resolves, and at that moment it gains exactly the entry of the root, whose token the
  chain resolves to: only a negotiation that succeeds to the end writes the entry. When the
  \<^verbatim>\<open>/rest/info\<close> of the server names an \<open>owningSystemUrl\<close> that \<open>isFederated\<close> does not accept
  for the portal, the chain rejects with the code \<open>NOT_FEDERATED\<close> and
  \<open>federatedServers\<close> is as before the call.
\<close>

theorem getTokenForServer_not_federated:
  assumes root: "getServerRootUrl X url = Inr root"
    and fresh: "\<not> unexpired (federatedServers (mgr w) root) now"
    and idle: "\<forall>p. pendingTokenRequests (mgr w) root \<noteq> Some (Some p)"
    and call: "getTokenForServer X url requestOptions now w = (r, w1)"
  shows "r = Inr (Op (next_op w))
     \<and> federatedServers (mgr w1) = federatedServers (mgr w)
     \<and> (\<exists>chain. ops w1 (next_op w) = Some chain
          \<and> (\<forall>evs m' t'. run evs (mgr w1) chain = Some (m', t') \<longrightarrow>
                (case t' of
                   Settled (Inr v) \<Rightarrow>
                     (\<exists>entry. fs_token entry = v
                        \<and> federatedServers m' = (federatedServers (mgr w))(root \<mapsto> entry))
                 | _ \<Rightarrow> federatedServers m' = federatedServers (mgr w)))
          \<and> (truthy (owningSystemUrl serverInfo)
               \<and> \<not> isFederated X (the (owningSystemUrl serverInfo)) (portal (mgr w))
              \<longrightarrow> (\<exists>m'. run (domains_events (mgr w) portalInfo n0
                                @ [Tick n1, InfoReply (Inr serverInfo), Tick n2])
                            (mgr w1) chain
                         = Some (m', Settled (Inl (ArcGISTokenRequestError
                              (url @ '' is not federated with '' @ portal (mgr w) @ ''.'')
                              NOT_FEDERATED None)))
                       \<and> federatedServers m' = federatedServers (mgr w))))"
proof -
  let ?chain = "then_task (fetchAuthorizedDomains (mgr w)) (\<lambda>_. negotiate X url root requestOptions)"
  from getTokenForServer_starts [OF root fresh idle, of requestOptions] call
  have r: "r = Inr (Op (next_op w))"
    and w1: "w1 = w\<lparr> mgr := (mgr w)\<lparr> pendingTokenRequests :=
                    (pendingTokenRequests (mgr w))(root \<mapsto> Some (next_op w)) \<rparr>,
          ops := (ops w)(next_op w \<mapsto> ?chain),
          next_op := Suc (next_op w) \<rparr>"
    by simp_all
  from w1 have fs: "federatedServers (mgr w1) = federatedServers (mgr w)"
    and pt: "portal (mgr w1) = portal (mgr w)"
    and ch: "ops w1 (next_op w) = Some ?chain"
    by simp_all
  have safe: "stores_last root ?chain" by (rule stores_last_getTokenForServer_chain)
  have only: "\<forall>evs m' t'. run evs (mgr w1) ?chain = Some (m', t') \<longrightarrow>
                (case t' of
                   Settled (Inr v) \<Rightarrow>
                     (\<exists>entry. fs_token entry = v
                        \<and> federatedServers m' = (federatedServers (mgr w))(root \<mapsto> entry))
                 | _ \<Rightarrow> federatedServers m' = federatedServers (mgr w))"
  proof (intro allI impI)
    fix evs m' t'
    assume "run evs (mgr w1) ?chain = Some (m', t')"
    from stores_last_run [OF safe this]
    have "(federatedServers m' = federatedServers (mgr w1) \<and> stores_last root t')
          \<or> (\<exists>entry. t' = Settled (Inr (fs_token entry))
                \<and> federatedServers m' = (federatedServers (mgr w1))(root \<mapsto> entry))"
      by (auto simp add: caches_def)
    then show "case t' of
            Settled (Inr v) \<Rightarrow>
              (\<exists>entry. fs_token entry = v
                 \<and> federatedServers m' = (federatedServers (mgr w))(root \<mapsto> entry))
          | _ \<Rightarrow> federatedServers m' = federatedServers (mgr w)"
      by (auto simp add: fs split: task.splits sum.splits)
  qed
  have reject: "truthy (owningSystemUrl serverInfo)
               \<and> \<not> isFederated X (the (owningSystemUrl serverInfo)) (portal (mgr w))
              \<longrightarrow> (\<exists>m'. run (domains_events (mgr w) portalInfo n0
                                @ [Tick n1, InfoReply (Inr serverInfo), Tick n2])
                            (mgr w1) ?chain
                         = Some (m', Settled (Inl (ArcGISTokenRequestError
                              (url @ '' is not federated with '' @ portal (mgr w) @ ''.'')
                              NOT_FEDERATED None)))
                       \<and> federatedServers m' = federatedServers (mgr w))"
  proof
    assume a: "truthy (owningSystemUrl serverInfo)
               \<and> \<not> isFederated X (the (owningSystemUrl serverInfo)) (portal (mgr w))"
    from run_domains_events [of "mgr w" portalInfo n0 "mgr w1"]
    obtain m2 where d: "run (domains_events (mgr w) portalInfo n0) (mgr w1)
                          (fetchAuthorizedDomains (mgr w)) = Some (m2, Settled (Inr ()))"
      and f2: "federatedServers m2 = federatedServers (mgr w1)"
      and p2: "portal m2 = portal (mgr w1)" by blast
    from run_then [OF d]
    have "run (domains_events (mgr w) portalInfo n0) (mgr w1) ?chain
            = Some (m2, negotiate X url root requestOptions)" .
    moreover from a p2 pt
    have "run [Tick n1, InfoReply (Inr serverInfo), Tick n2] m2 (negotiate X url root requestOptions)
         = Some (m2, Settled (Inl (ArcGISTokenRequestError
                   (url @ '' is not federated with '' @ portal m2 @ ''.'') NOT_FEDERATED None)))"
      by (intro run_negotiate_not_federated) simp_all
    ultimately have "run (domains_events (mgr w) portalInfo n0
                                @ [Tick n1, InfoReply (Inr serverInfo), Tick n2])
                            (mgr w1) ?chain
                 = Some (m2, Settled (Inl (ArcGISTokenRequestError
                   (url @ '' is not federated with '' @ portal m2 @ ''.'') NOT_FEDERATED None)))"
      by (simp add: run_append)
    with f2 fs p2 pt show "\<exists>m'. run (domains_events (mgr w) portalInfo n0
                                @ [Tick n1, InfoReply (Inr serverInfo), Tick n2])
                            (mgr w1) ?chain
                         = Some (m', Settled (Inl (ArcGISTokenRequestError
                              (url @ '' is not federated with '' @ portal (mgr w) @ ''.'')
                              NOT_FEDERATED None)))
                       \<and> federatedServers m' = federatedServers (mgr w)"
      by auto
  qed
  from r fs ch only reject show ?thesis by blast
qed

theorem getTokenForServer_not_federated_witness:
  "fst (getTokenForServer sample_externals sample_url None 5000 (new_world password_manager))
     = Inr (Op 0)
   \<and> (\<exists>m'. run [PortalReply (Inr sample_portal_info), Tick 5001,
                  Tick 5002, InfoReply (Inr foreign_server_info), Tick 5003]
              (mgr (snd (getTokenForServer sample_externals sample_url None 5000
                           (new_world password_manager))))
              (the (ops (snd (getTokenForServer sample_externals sample_url None 5000
                                (new_world password_manager))) 0))
            = Some (m', Settled (Inl (ArcGISTokenRequestError
                 (sample_url @ '' is not federated with ''
                    @ ''https://www.arcgis.com/sharing/rest'' @ ''.'')
                 NOT_FEDERATED None)))
          \<and> federatedServers m' = Map.empty)"
proof -
  let ?w = "new_world password_manager"
  let ?call = "getTokenForServer sample_externals sample_url None 5000 ?w"
  have fresh: "\<not> unexpired (federatedServers (mgr ?w) sample_root) 5000"
    by (simp add: new_world_def password_manager_def plain_manager_def unexpired_def)
  have idle: "\<forall>p. pendingTokenRequests (mgr ?w) sample_root \<noteq> Some (Some p)"
    by (simp add: new_world_def password_manager_def plain_manager_def)
  have call: "?call = (fst ?call, snd ?call)" by simp
  have truthy: "truthy (owningSystemUrl foreign_server_info)"
    by (simp add: foreign_server_info_def)
  have ev: "domains_events (mgr ?w) sample_portal_info 5001
              = [PortalReply (Inr sample_portal_info), Tick 5001]"
    by (simp add: domains_events_def new_world_def password_manager_def plain_manager_def)
  from getTokenForServer_not_federated
         [OF sample_root_eval fresh idle call,
          of foreign_server_info sample_portal_info 5001 5002 5003]
       truthy foreign_not_federated ev
  show ?thesis
    by (auto simp add: new_world_def password_manager_def plain_manager_def)
qed

section \<open>The pending entry once the operation settles\<close>




section \<open>Calls that find an operation pending\<close>




section \<open>getFreshToken\<close>

text \<open>
  C6, as the claim states it, fails: an expired token does not always make \<open>getFreshToken\<close>
  perform one refresh and resolve to the updated token. On a manager whose token expired at
  1000, a first \<open>getFreshToken\<close> at 5000 starts operation 0; a second one at 5001 (the token
  still the expired one) returns operation 0 and performs no refresh: the world is the
  same after it. And on a manager that has an expired token and neither a password nor a
  refresh token, the one refresh is rejected with \<open>TOKEN_REFRESH_FAILED\<close>, and so is the
  operation: it does not resolve to a token.
\<close>

theorem getFreshToken_expired_without_refresh:
  "truthy (token (mgr (snd (getFreshToken sample_externals None 5000
                              (new_world password_manager)))))
   \<and> tokenExpires (mgr (snd (getFreshToken sample_externals None 5000
                               (new_world password_manager)))) = Some 1000
   \<and> getFreshToken sample_externals None 5001
        (snd (getFreshToken sample_externals None 5000 (new_world password_manager)))
      = (Inr (Op 0), snd (getFreshToken sample_externals None 5000 (new_world password_manager)))
   \<and> truthy (token (mgr (new_world token_manager)))
   \<and> tokenExpires (mgr (new_world token_manager)) = Some 1000
   \<and> fst (getFreshToken sample_externals None 5000 (new_world token_manager)) = Inr (Op 0)
   \<and> ops (snd (getFreshToken sample_externals None 5000 (new_world token_manager))) 0
      = Some (Settled (Inl (ArcGISTokenRequestError
           ''Unable to refresh token. No refresh token or password present.''
           TOKEN_REFRESH_FAILED None)))"
  unfolding getFreshToken_password_manager
  by (simp add: getFreshToken_def Let_def sample_defs token_manager_def
      refreshCredentials_def username_def)

text \<open>
  C6, amended. With a token and either no expiry or an expiry later than now,
  \<open>getFreshToken\<close> returns the token at once and changes nothing (no request). With a token
  whose expiry is at or before now, and no operation pending for the portal, it calls
  \<open>refreshCredentials\<close> once and stores one new operation, pending under the portal, built on
  that refresh; no other operation is touched. If the refresh resolves, the operation then
  sets the pending entry to \<^verbatim>\<open>null\<close> and resolves to the token the manager holds at that
  moment; if the refresh rejects, the operation rejects with the same error.
\<close>

theorem getFreshToken_refreshes_once:
  "(truthy (token (mgr w))
      \<and> (tokenExpires (mgr w) = None \<or> (\<exists>e. tokenExpires (mgr w) = Some e \<and> now < e))
     \<longrightarrow> getFreshToken X requestOptions now w = (Inr (Resolved (token (mgr w))), w))
   \<and> (truthy (token (mgr w)) \<and> tokenExpires (mgr w) = Some e \<and> e \<le> now
      \<and> (\<forall>p. pendingTokenRequests (mgr w) (portal (mgr w)) \<noteq> Some (Some p))
      \<and> refreshCredentials X requestOptions now (mgr w) = (m1, Inr refresh)
      \<and> getFreshToken X requestOptions now w = (r, w1)
     \<longrightarrow> r = Inr (Op (next_op w))
         \<and> mgr w1 = m1\<lparr> pendingTokenRequests :=
                          (pendingTokenRequests m1)(portal m1 \<mapsto> Some (next_op w)) \<rparr>
         \<and> next_op w1 = Suc (next_op w)
         \<and> (\<forall>q. q \<noteq> next_op w \<longrightarrow> ops w1 q = ops w q)
         \<and> (\<exists>chain. ops w1 (next_op w) = Some chain
              \<and> (\<forall>evs m2 n. run evs (mgr w1) refresh = Some (m2, Settled (Inr ()))
                    \<longrightarrow> run (evs @ [Tick n]) (mgr w1) chain
                        = Some (m2\<lparr> pendingTokenRequests :=
                                       (pendingTokenRequests m2)(portal m2 \<mapsto> None) \<rparr>,
                                Settled (Inr (token m2))))
              \<and> (\<forall>evs m2 err. run evs (mgr w1) refresh = Some (m2, Settled (Inl err))
                    \<longrightarrow> run evs (mgr w1) chain = Some (m2, Settled (Inl err)))))"
proof (intro conjI impI)
  assume "truthy (token (mgr w))
      \<and> (tokenExpires (mgr w) = None \<or> (\<exists>e. tokenExpires (mgr w) = Some e \<and> now < e))"
  then show "getFreshToken X requestOptions now w = (Inr (Resolved (token (mgr w))), w)"
    by (auto simp add: getFreshToken_def Let_def)
next
  let ?cb = "\<lambda>_::unit. Sync (\<lambda>n m'.
               (m'\<lparr> pendingTokenRequests :=
                      (pendingTokenRequests m')(portal m' \<mapsto> None) \<rparr>,
                Settled (Inr (token m'))))"
  assume a: "truthy (token (mgr w)) \<and> tokenExpires (mgr w) = Some e \<and> e \<le> now
      \<and> (\<forall>p. pendingTokenRequests (mgr w) (portal (mgr w)) \<noteq> Some (Some p))
      \<and> refreshCredentials X requestOptions now (mgr w) = (m1, Inr refresh)
      \<and> getFreshToken X requestOptions now w = (r, w1)"
  then have call: "getFreshToken X requestOptions now w =
      (Inr (Op (next_op w)),
       w\<lparr> mgr := m1\<lparr> pendingTokenRequests :=
                     (pendingTokenRequests m1)(portal m1 \<mapsto> Some (next_op w)) \<rparr>,
           ops := (ops w)(next_op w \<mapsto> then_task refresh ?cb),
           next_op := Suc (next_op w) \<rparr>)"
    by (auto simp add: getFreshToken_def Let_def split: option.splits)
  with a have r: "r = Inr (Op (next_op w))"
    and w1: "w1 = w\<lparr> mgr := m1\<lparr> pendingTokenRequests :=
                     (pendingTokenRequests m1)(portal m1 \<mapsto> Some (next_op w)) \<rparr>,
           ops := (ops w)(next_op w \<mapsto> then_task refresh ?cb),
           next_op := Suc (next_op w) \<rparr>"
    by simp_all
  have ok: "\<forall>evs m2 n. run evs (mgr w1) refresh = Some (m2, Settled (Inr ()))
                    \<longrightarrow> run (evs @ [Tick n]) (mgr w1) (then_task refresh ?cb)
                        = Some (m2\<lparr> pendingTokenRequests :=
                                       (pendingTokenRequests m2)(portal m2 \<mapsto> None) \<rparr>,
                                Settled (Inr (token m2)))"
    by (auto simp add: run_append dest!: run_then [where f = ?cb])
  have bad: "\<forall>evs m2 err. run evs (mgr w1) refresh = Some (m2, Settled (Inl err))
                    \<longrightarrow> run evs (mgr w1) (then_task refresh ?cb) = Some (m2, Settled (Inl err))"
    by (auto dest!: run_then_rejected [where f = ?cb])
  from r show "r = Inr (Op (next_op w))" .
  from w1 show "mgr w1 = m1\<lparr> pendingTokenRequests :=
                          (pendingTokenRequests m1)(portal m1 \<mapsto> Some (next_op w)) \<rparr>" by simp
  from w1 show "next_op w1 = Suc (next_op w)" by simp
  from w1 show "\<forall>q. q \<noteq> next_op w \<longrightarrow> ops w1 q = ops w q" by simp
  from w1 ok bad show "\<exists>chain. ops w1 (next_op w) = Some chain
              \<and> (\<forall>evs m2 n. run evs (mgr w1) refresh = Some (m2, Settled (Inr ()))
                    \<longrightarrow> run (evs @ [Tick n]) (mgr w1) chain
                        = Some (m2\<lparr> pendingTokenRequests :=
                                       (pendingTokenRequests m2)(portal m2 \<mapsto> None) \<rparr>,
                                Settled (Inr (token m2))))
              \<and> (\<forall>evs m2 err. run evs (mgr w1) refresh = Some (m2, Settled (Inl err))
                    \<longrightarrow> run evs (mgr w1) chain = Some (m2, Settled (Inl err)))"
    by (intro exI [where x = "then_task refresh ?cb"]) simp
qed

theorem getFreshToken_refreshes_once_witness:
  "getFreshToken sample_externals None 500 (new_world password_manager)
     = (Inr (Resolved (Some ''old'')), new_world password_manager)
   \<and> fst (getFreshToken sample_externals None 5000 (new_world password_manager)) = Inr (Op 0)
   \<and> (\<exists>m2. run [TokenReply (Inr sample_token_response), Tick 5001, Tick 5002]
               (mgr (snd (getFreshToken sample_externals None 5000
                            (new_world password_manager))))
               (the (ops (snd (getFreshToken sample_externals None 5000
                                 (new_world password_manager))) 0))
             = Some (m2, Settled (Inr (Some ''new'')))
           \<and> token m2 = Some ''new'' \<and> tokenExpires m2 = Some 9000000
           \<and> pendingTokenRequests m2 (portal m2) = Some None)"
proof -
  let ?w = "new_world password_manager"
  let ?call = "getFreshToken sample_externals None 5000 ?w"
  let ?refresh = "projr (refreshWithUsernameAndPassword sample_externals None password_manager)"
  have fresh: "truthy (token (mgr ?w))
      \<and> (tokenExpires (mgr ?w) = None \<or> (\<exists>e. tokenExpires (mgr ?w) = Some e \<and> 500 < e))"
    by (simp add: sample_defs)
  have expired: "truthy (token (mgr ?w)) \<and> tokenExpires (mgr ?w) = Some 1000 \<and> (1000::int) \<le> 5000
      \<and> (\<forall>p. pendingTokenRequests (mgr ?w) (portal (mgr ?w)) \<noteq> Some (Some p))
      \<and> refreshCredentials sample_externals None 5000 (mgr ?w) = (password_manager, Inr ?refresh)
      \<and> ?call = (fst ?call, snd ?call)"
    using refreshCredentials_password_manager by (simp add: sample_defs)
  from getFreshToken_refreshes_once
         [of ?w 500 sample_externals None 1000 password_manager ?refresh "fst ?call" "snd ?call"]
       fresh
  have one: "getFreshToken sample_externals None 500 ?w = (Inr (Resolved (Some ''old'')), ?w)"
    by (simp add: sample_defs)
  from getFreshToken_refreshes_once
         [of ?w 5000 sample_externals None 1000 password_manager ?refresh "fst ?call" "snd ?call"]
       expired
  obtain chain where r: "fst ?call = Inr (Op 0)"
    and ch: "ops (snd ?call) 0 = Some chain"
    and ok: "\<forall>evs m2 n. run evs (mgr (snd ?call)) ?refresh = Some (m2, Settled (Inr ()))
                    \<longrightarrow> run (evs @ [Tick n]) (mgr (snd ?call)) chain
                        = Some (m2\<lparr> pendingTokenRequests :=
                                       (pendingTokenRequests m2)(portal m2 \<mapsto> None) \<rparr>,
                                Settled (Inr (token m2)))"
    by (auto simp add: new_world_def)
  from ok run_refresh_password_manager [of "mgr (snd ?call)"]
  have "run ([TokenReply (Inr sample_token_response), Tick 5001] @ [Tick 5002])
            (mgr (snd ?call)) chain
        = Some ((mgr (snd ?call))\<lparr> token := Some ''new'', tokenExpires := Some 9000000,
                  pendingTokenRequests :=
                    (pendingTokenRequests (mgr (snd ?call)))(portal (mgr (snd ?call)) \<mapsto> None) \<rparr>,
                Settled (Inr (Some ''new'')))"
    by fastforce
  with ch r one show ?thesis by simp
qed

section \<open>serialize and deserialize\<close>

text \<open>
  C7, as the claim states it, fails: \<open>federatedServers\<close> is not always empty after
  \<open>deserialize\<close>. The manager that the constructor builds for the server
  \<^verbatim>\<open>https://Foo.Com/arcgis\<close> serializes with that server, and \<open>deserialize\<close> calls the
  constructor, which registers the server again: \<open>federatedServers\<close> of the result holds the
  token under the root \<^verbatim>\<open>https://foo.com/arcgis\<close>.
\<close>

theorem deserialize_registers_server:
  "new_manager sample_externals server_options = Inr server_manager
   \<and> (case deserialize sample_externals (serialize server_manager) of
        Inl e \<Rightarrow> False
      | Inr m' \<Rightarrow>
          federatedServers m' sample_root = Some \<lparr> fs_token = Some ''t'', fs_expires = Some 1000 \<rparr>
          \<and> federatedServers m' \<noteq> Map.empty)"
proof -
  have "deserialize sample_externals (serialize server_manager) = Inr server_manager"
    by (simp add: deserialize_def serialize_def toJSON_def new_manager_def Let_def username_def
        server_manager_def plain_manager_def server_root_eval cleanUrl_sample
        clean_default_portal)
  moreover have "federatedServers server_manager sample_root
                   = Some \<lparr> fs_token = Some ''t'', fs_expires = Some 1000 \<rparr>"
    by (simp add: server_manager_def)
  moreover from this have "federatedServers server_manager \<noteq> Map.empty" by auto
  ultimately show ?thesis by (simp add: new_manager_server_options)
qed

text \<open>
  C7, amended. For a manager whose portal is not empty and is left as it is by
  \<^verbatim>\<open>cleanUrl\<close>, whose token duration is not 0 and whose server, if it has one, has a root (all
  of which hold of a manager the constructor built from a clean portal),
  \<open>deserialize (serialize m)\<close> returns a manager (it is a function of the record alone: no
  request is made) with the same client id, refresh token and expiry, user name, password,
  token and expiry, portal, \<open>ssl\<close>, token duration, redirect URI and server; its trusted
  domains and pending requests are empty; and \<open>federatedServers\<close> is empty when the manager
  has no server, and otherwise holds exactly the entry of the server's root, with the token
  and its expiry.
\<close>

theorem deserialize_serialize:
  assumes "portal m \<noteq> []"
    and "cleanUrl X (portal m) = portal m"
    and "tokenDuration m \<noteq> 0"
    and "truthy (server m) \<longrightarrow> getServerRootUrl X (the (server m)) = Inr root"
  shows "\<exists>m'. deserialize X (serialize m) = Inr m'
     \<and> clientId m' = clientId m
     \<and> refreshToken m' = refreshToken m
     \<and> refreshTokenExpires m' = refreshTokenExpires m
     \<and> username m' = username m
     \<and> password m' = password m
     \<and> token m' = token m
     \<and> tokenExpires m' = tokenExpires m
     \<and> portal m' = portal m
     \<and> ssl m' = ssl m
     \<and> tokenDuration m' = tokenDuration m
     \<and> redirectUri m' = redirectUri m
     \<and> server m' = server m
     \<and> trustedDomains m' = []
     \<and> pendingTokenRequests m' = Map.empty
     \<and> priv_pendingUserRequest m' = None
     \<and> priv_pendingPortalRequest m' = None
     \<and> federatedServers m' =
         (if truthy (server m)
          then [root \<mapsto> \<lparr> fs_token = token m, fs_expires = tokenExpires m \<rparr>]
          else Map.empty)"
  using assms username_falsy_or_truthy [of m]
  by (auto simp add: deserialize_def serialize_def toJSON_def new_manager_def Let_def username_def)

theorem deserialize_serialize_witness:
  "(\<exists>m'. deserialize sample_externals (serialize server_manager) = Inr m'
       \<and> token m' = Some ''t'' \<and> tokenExpires m' = Some 1000
       \<and> portal m' = ''https://www.arcgis.com/sharing/rest''
       \<and> tokenDuration m' = 20160
       \<and> server m' = Some ''https://Foo.Com/arcgis''
       \<and> federatedServers m'
           = [sample_root \<mapsto> \<lparr> fs_token = Some ''t'', fs_expires = Some 1000 \<rparr>])
   \<and> (\<exists>m'. deserialize sample_externals (serialize password_manager) = Inr m'
       \<and> username m' = Some ''jsmith'' \<and> password m' = Some ''secret''
       \<and> token m' = Some ''old'' \<and> tokenExpires m' = Some 1000
       \<and> trustedDomains m' = [] \<and> pendingTokenRequests m' = Map.empty
       \<and> federatedServers m' = Map.empty)"
proof -
  have a: "portal server_manager \<noteq> []"
    "cleanUrl sample_externals (portal server_manager) = portal server_manager"
    "tokenDuration server_manager \<noteq> 0"
    "truthy (server server_manager) \<longrightarrow>
       getServerRootUrl sample_externals (the (server server_manager)) = Inr sample_root"
    by (simp_all add: server_manager_def plain_manager_def cleanUrl_sample
        clean_default_portal server_root_eval)
  have b: "portal password_manager \<noteq> []"
    "cleanUrl sample_externals (portal password_manager) = portal password_manager"
    "tokenDuration password_manager \<noteq> 0"
    "truthy (server password_manager) \<longrightarrow>
       getServerRootUrl sample_externals (the (server password_manager)) = Inr sample_root"
    by (simp_all add: password_manager_def plain_manager_def cleanUrl_sample
        clean_default_portal)
  from deserialize_serialize [OF a] deserialize_serialize [OF b]
  show ?thesis
    by (auto simp add: server_manager_def password_manager_def plain_manager_def username_def)
qed

section \<open>getServerRootUrl\<close>

text \<open>
  C4, as the claim states it, fails on a URL whose services are directly below the host.
  \<^verbatim>\<open>cleanUrl\<close> leaves \<^verbatim>\<open>https://Foo.Com/rest/services/X/FeatureServer\<close> as it is; what comes
  before its first services segment is \<^verbatim>\<open>https://Foo.Com\<close>; the result is
  \<^verbatim>\<open>https://foo.com/\<close>, the host in lower case followed by a slash that the URL does not have
  there. \<open>getServerRootUrl_without_path\<close> has it for every such URL: the result is put
  together from the protocol, the host, a slash and the segments of the path, also when
  there is no segment.
\<close>

theorem getServerRootUrl_host_only:
  "cleanUrl sample_externals ''https://Foo.Com/rest/services/X/FeatureServer''
     = ''https://Foo.Com/rest/services/X/FeatureServer''
   \<and> split_services_first ''https://Foo.Com/rest/services/X/FeatureServer''
     = ''https://Foo.Com''
   \<and> getServerRootUrl sample_externals ''https://Foo.Com/rest/services/X/FeatureServer''
     = Inr ''https://foo.com/''"
proof -
  have "split_services_first
          (cleanUrl sample_externals ''https://Foo.Com/rest/services/X/FeatureServer'')
          = ''https://'' @ ''Foo.Com''"
    unfolding clean_host_only_url split_host_only by simp
  from getServerRootUrl_without_path [OF this]
  have "getServerRootUrl sample_externals ''https://Foo.Com/rest/services/X/FeatureServer''
          = Inr ''https://foo.com/''"
    by (simp add: toLowerCase_host line_terminator_def)
  with clean_host_only_url split_host_only show ?thesis by (intro conjI)
qed

text \<open>
  C4, amended. \<open>getServerRootUrl\<close> works on the URL that \<^verbatim>\<open>cleanUrl\<close> returns. For every URL
  whose cleaned text is \<^verbatim>\<open>http://\<close> or \<^verbatim>\<open>https://\<close>, a host, a slash and a path, followed by
  nothing or by the first \<^verbatim>\<open>/rest/services\<close> or \<^verbatim>\<open>/rest/admin/services\<close> segment of the text
  (no such segment starts before), the result is the protocol, the host in lower case, the
  slash and the path as it is written: everything from that segment on is gone, and only
  the host has changed case. The example of the claim is the witness.
\<close>

theorem getServerRootUrl_lowercases_host:
  assumes "cleanUrl X url = protocol @ host @ ''/'' @ path @ rest"
    and "rest = [] \<or> services_match_here rest"
    and "\<forall>i < length (protocol @ host @ ''/'' @ path).
           \<not> services_match_here (drop i (cleanUrl X url))"
    and "protocol = ''https://'' \<or> protocol = ''http://''"
    and "CHR ''/'' \<notin> set host"
    and "\<forall>c \<in> set (host @ path). \<not> line_terminator c"
  shows "getServerRootUrl X url = Inr (protocol @ toLowerCase host @ ''/'' @ path)"
proof -
  from assms(1) have c: "cleanUrl X url = (protocol @ host @ ''/'' @ path) @ rest" by simp
  from assms(3) have "\<forall>i < length (protocol @ host @ ''/'' @ path).
           \<not> services_match_here (drop i ((protocol @ host @ ''/'' @ path) @ rest))"
    unfolding c .
  from split_services_first_cut [OF assms(2) this]
  have "split_services_first (cleanUrl X url) = protocol @ host @ ''/'' @ path"
    unfolding c .
  from this assms(4-6) show ?thesis by (rule getServerRootUrl_with_path)
qed

theorem getServerRootUrl_lowercases_host_witness:
  "getServerRootUrl sample_externals ''https://Foo.Com/arcgis/rest/services/X/FeatureServer''
     = Inr ''https://foo.com/arcgis''"
proof -
  let ?url = "''https://Foo.Com/arcgis/rest/services/X/FeatureServer''"
  have clean: "cleanUrl sample_externals ?url
                 = ''https://'' @ ''Foo.Com'' @ ''/'' @ ''arcgis'' @ ''/rest/services/X/FeatureServer''"
    unfolding clean_sample_url by simp
  have cut: "''/rest/services/X/FeatureServer'' = [] \<or> services_match_here ''/rest/services/X/FeatureServer''"
    using services_match_example by simp
  have first: "\<forall>i < length (''https://'' @ ''Foo.Com'' @ ''/'' @ ''arcgis'').
                 \<not> services_match_here (drop i (cleanUrl sample_externals ?url))"
    unfolding clean_sample_url
    using split_services_first_leftmost [of _ ?url] unfolding split_example by simp
  have protocol: "''https://'' = ''https://'' \<or> ''https://'' = ''http://''" by simp
  have host: "CHR ''/'' \<notin> set ''Foo.Com''" by simp
  have line: "\<forall>c \<in> set (''Foo.Com'' @ ''arcgis''). \<not> line_terminator c"
    by (simp add: line_terminator_def)
  from getServerRootUrl_lowercases_host [OF clean cut first protocol host line]
  show ?thesis by (simp add: toLowerCase_host)
qed

end
